theory Spec2Isabelle
  imports Main "HOL-Library.Word" "HOL-Library.AList"
begin

section \<open>Python values, exceptions and effects\<close>

text \<open>
  The library is Python.  A Python \<open>str\<close> is modelled as a \<open>string\<close> whose characters
  are the code points U+0000 .. U+00FF; \<open>bytes\<close> is a list of 8-bit words.  A raised
  exception is the \<open>Inl\<close> branch of a sum.  Calls into collaborators outside the
  repository (the file system, \<open>cryptography\<close>, \<open>urllib\<close>, \<open>requests\<close>) are the fields
  of the record \<open>library\<close>; every such call with an effect is also appended to a trace of
  events, so that a statement like "no HTTP request is issued" is a statement about
  the trace.  Calls to the logger are left out: they return nothing and no control
  flow depends on them.
\<close>

type_synonym byte = "8 word"
type_synonym bytes = "byte list"

datatype exc_class = CMSURLError | ValueError | AttributeError | TypeError | OSError | LibraryError

text \<open>
  Modelled from the spec: the exception class \<open>APIRequestError\<close> is imported from
  \<open>workspace_one_python/exceptions/api_request_error.py\<close>, which is not among the
  sources.  The spec describes it as "an error carrying the HTTP status code (if
  available) and a message"; the callers construct it as
  \<open>APIRequestError(message, status_code=...)\<close> or \<open>APIRequestError(message)\<close>, so
  the status code is optional and absent when not passed.
\<close>

datatype py_exc =
    PyExc exc_class string
  | APIRequestError string "int option"

fun exc_str :: "py_exc \<Rightarrow> string" where
  "exc_str (PyExc c msg) = msg"
| "exc_str (APIRequestError msg sc) = msg"

fun exc_class_of :: "py_exc \<Rightarrow> exc_class option" where
  "exc_class_of (PyExc c msg) = Some c"
| "exc_class_of (APIRequestError msg sc) = None"

datatype pyval = PNone | PStr string | PLogger

fun py_str :: "pyval \<Rightarrow> string" where
  "py_str PNone = ''None''"
| "py_str (PStr s) = s"
| "py_str PLogger = ''<Logger>''"

datatype json =
    JNull
  | JBool bool
  | JInt int
  | JStr string
  | JList "json list"
  | JDict "(string \<times> json) list"

subsection \<open>Objects with dynamic attributes\<close>

text \<open>
  An instance whose attributes are read by name at run time is its attribute
  dictionary, in insertion order.  Reading an attribute that was never set raises
  \<open>AttributeError\<close>.
\<close>

type_synonym pyobj = "(string \<times> pyval) list"

definition getattr :: "pyobj \<Rightarrow> string \<Rightarrow> py_exc + pyval" where
  "getattr obj name =
     (case map_of obj name of
        None \<Rightarrow> Inl (PyExc AttributeError name)
      | Some v \<Rightarrow> Inr v)"

subsection \<open>str.encode("utf-8") and base64.b64encode\<close>

definition utf8_char :: "char \<Rightarrow> bytes" where
  "utf8_char c =
     (let n = (of_char c :: nat)
      in if n < 128 then [of_nat n]
         else [of_nat (192 + n div 64), of_nat (128 + n mod 64)])"

definition utf8_encode :: "string \<Rightarrow> bytes" where
  "utf8_encode s = concat (map utf8_char s)"

definition b64_alphabet :: string where
  "b64_alphabet = ''ABCDEFGHIJKLMNOPQRSTUVWXYZabcdefghijklmnopqrstuvwxyz0123456789+/''"

definition b64_char :: "nat \<Rightarrow> char" where
  "b64_char n = b64_alphabet ! (n mod 64)"

text \<open>
  \<open>base64.b64encode(data).decode()\<close>: three bytes become four characters of the
  alphabet; a final group of one or two bytes is padded with \<open>=\<close>.
\<close>

fun b64encode :: "bytes \<Rightarrow> string" where
  "b64encode [] = []"
| "b64encode [a] =
     (let n = unat a * 65536
      in [b64_char (n div 262144), b64_char (n div 4096), CHR ''='', CHR ''=''])"
| "b64encode [a, b] =
     (let n = unat a * 65536 + unat b * 256
      in [b64_char (n div 262144), b64_char (n div 4096), b64_char (n div 64), CHR ''=''])"
| "b64encode (a # b # c # rest) =
     (let n = unat a * 65536 + unat b * 256 + unat c
      in [b64_char (n div 262144), b64_char (n div 4096), b64_char (n div 64), b64_char n]
         @ b64encode rest)"

subsection \<open>Collaborators outside the repository\<close>

datatype private_key = PrivateKey nat
datatype certificate = Certificate nat
datatype hash_algorithm = SHA256 | SHA512
datatype encoding = DER | PEM
datatype pkcs7_option = DetachedSignature | Binary | Text

text \<open>The six components of \<open>urllib.parse.urlparse(url)\<close>.\<close>

record parse_result =
  scheme :: string
  netloc :: string
  path :: string
  params :: string
  query :: string
  fragment :: string

record retry =
  total :: nat
  backoff_factor :: nat
  status_forcelist :: "int list"

record http_adapter =
  max_retries :: retry

text \<open>A \<open>requests.Session\<close>: its transport adapters by URL prefix.\<close>

record session =
  adapters :: "(string \<times> http_adapter) list"

record http_request =
  req_method :: string
  req_url :: string
  req_headers :: "(string \<times> pyval) list"
  req_json :: "json option"
  req_files :: "(string \<times> bytes) list option"
  req_timeout :: nat

record response =
  status_code :: int
  response_text :: string

text \<open>
  What a call into \<open>requests\<close> can raise: a \<open>requests.RequestException\<close> with its
  message and its \<open>response\<close> attribute (\<open>None\<close> when no response was received), or
  any other exception.
\<close>

datatype raised =
    RequestException string "response option"
  | OtherException py_exc

record library =
  open_rb :: "string \<Rightarrow> py_exc + bytes"
  pkcs12_load :: "bytes \<Rightarrow> bytes \<Rightarrow> py_exc + (private_key option \<times> certificate option)"
  pkcs7_sign :: "certificate \<Rightarrow> private_key \<Rightarrow> hash_algorithm \<Rightarrow> bytes \<Rightarrow> encoding
                 \<Rightarrow> pkcs7_option list \<Rightarrow> py_exc + bytes"
  urlparse :: "string \<Rightarrow> py_exc + parse_result"
  http_send :: "session option \<Rightarrow> http_request \<Rightarrow> raised + response"
  http_error_msg :: "response \<Rightarrow> string"
  response_json :: "response \<Rightarrow> raised + json"

datatype event =
    Open string
  | Pkcs12Load bytes bytes
  | Pkcs7Sign certificate private_key hash_algorithm bytes encoding "pkcs7_option list"
  | HttpRequest "session option" http_request

fun is_sign :: "event \<Rightarrow> bool" where
  "is_sign (Pkcs7Sign c k h d e os) = True"
| "is_sign ev = False"

fun is_http :: "event \<Rightarrow> bool" where
  "is_http (HttpRequest s r) = True"
| "is_http ev = False"

section \<open>environment/aw_environment.py\<close>

definition AWEnvironment_init :: "string \<Rightarrow> string \<Rightarrow> string option \<Rightarrow> py_exc + pyobj" where
  "AWEnvironment_init api_url tenant_code parent_og =
     (let self = [(''logger'', PLogger)]
      in if api_url = [] \<or> tenant_code = []
         then Inl (PyExc ValueError ''Both 'api_url' and 'tenant_code' are required.'')
         else Inr (self @
                [(''api_url'', PStr api_url),
                 (''tenant_code'', PStr tenant_code),
                 (''parent_og'', (case parent_og of None \<Rightarrow> PNone | Some og \<Rightarrow> PStr og))]))"

section \<open>auth/workspace_one_auth.py\<close>

text \<open>
  \<open>cert_bytes\<close> and \<open>use_memory_cert\<close> are set by \<open>from_memory\<close> only;
  \<open>getattr(self, "use_memory_cert", False)\<close> reads an unset flag as \<open>False\<close>.
\<close>

record workspace_one_auth =
  cert_path :: string
  cert_pw :: string
  cert_bytes :: "bytes option"
  use_memory_cert :: bool

definition WorkspaceOneAuth_init :: "string \<Rightarrow> string \<Rightarrow> py_exc + workspace_one_auth" where
  "WorkspaceOneAuth_init cert_path' cert_pw' =
     Inr \<lparr>cert_path = cert_path', cert_pw = cert_pw', cert_bytes = None,
          use_memory_cert = False\<rparr>"

definition from_memory :: "bytes \<Rightarrow> string \<Rightarrow> py_exc + workspace_one_auth" where
  "from_memory cert_bytes' cert_pw' =
     (case WorkspaceOneAuth_init [] cert_pw' of
        Inl e \<Rightarrow> Inl e
      | Inr self \<Rightarrow> Inr (self\<lparr>cert_bytes := Some cert_bytes', use_memory_cert := True\<rparr>))"

definition load_failure :: "py_exc \<Rightarrow> py_exc" where
  "load_failure e = PyExc CMSURLError (''Failed to load PKCS#12 certificate: '' @ exc_str e)"

definition load_p12_cert ::
  "library \<Rightarrow> workspace_one_auth \<Rightarrow> string \<Rightarrow> string
   \<Rightarrow> (py_exc + (private_key option \<times> certificate option)) \<times> event list" where
  "load_p12_cert lib self p12_path password =
     (let (read, tr) =
            (if use_memory_cert self
             then (case cert_bytes self of
                     None \<Rightarrow> Inl (PyExc AttributeError ''cert_bytes'')
                   | Some b \<Rightarrow> Inr b, [])
             else (open_rb lib p12_path, [Open p12_path]))
      in case read of
           Inl e \<Rightarrow> (Inl (load_failure e), tr)
         | Inr p12_data \<Rightarrow>
             (let pw = utf8_encode password;
                  tr' = tr @ [Pkcs12Load p12_data pw]
              in case pkcs12_load lib p12_data pw of
                   Inl e \<Rightarrow> (Inl (load_failure e), tr')
                 | Inr (private_key, certificate) \<Rightarrow> (Inr (private_key, certificate), tr')))"

definition sign_data ::
  "library \<Rightarrow> private_key \<Rightarrow> certificate \<Rightarrow> string \<Rightarrow> bytes option \<times> event list" where
  "sign_data lib private_key certificate data =
     (let data_bytes = utf8_encode data;
          tr = [Pkcs7Sign certificate private_key SHA512 data_bytes DER [DetachedSignature]]
      in case pkcs7_sign lib certificate private_key SHA512 data_bytes DER [DetachedSignature] of
           Inl e \<Rightarrow> (None, tr)
         | Inr cms_der \<Rightarrow> (Some cms_der, tr))"

definition get_cmsurl_header ::
  "library \<Rightarrow> workspace_one_auth \<Rightarrow> string \<Rightarrow> (py_exc + string option) \<times> event list" where
  "get_cmsurl_header lib self url =
     (let p12_cert_path = cert_path self;
          cert_password = cert_pw self
      in case load_p12_cert lib self p12_cert_path cert_password of
           (Inl e, tr) \<Rightarrow>
             (if exc_class_of e = Some CMSURLError then (Inr None, tr) else (Inl e, tr))
         | (Inr (private_key, certificate), tr) \<Rightarrow>
             (case (private_key, certificate) of
                (Some k, Some c) \<Rightarrow>
                  (case urlparse lib url of
                     Inl e \<Rightarrow> (Inl e, tr)
                   | Inr parsed_url \<Rightarrow>
                       (let canonical_path = path parsed_url
                        in case sign_data lib k c canonical_path of
                             (None, tr') \<Rightarrow> (Inr None, tr @ tr')
                           | (Some cms_container, tr') \<Rightarrow>
                               (let encoded_signature = b64encode cms_container;
                                    header_value = ''CMSURL`1 '' @ encoded_signature
                                in (Inr (Some header_value), tr @ tr'))))
              | _ \<Rightarrow> (Inr None, tr)))"

section \<open>The request dispatchers\<close>

text \<open>
  \<open>Response.raise_for_status()\<close> raises \<open>HTTPError\<close>, a \<open>RequestException\<close> whose
  \<open>response\<close> attribute is the response itself, for a status from 400 to 599.
\<close>

definition raise_for_status :: "library \<Rightarrow> response \<Rightarrow> raised + unit" where
  "raise_for_status lib resp =
     (if 400 \<le> status_code resp \<and> status_code resp < 600
      then Inl (RequestException (http_error_msg lib resp) (Some resp))
      else Inr ())"

text \<open>
  The body of the \<open>try\<close> block after the transport has answered:
  \<open>response.raise_for_status(); return response.json() if response.text else {}\<close>.
\<close>

definition read_response :: "library \<Rightarrow> raised + response \<Rightarrow> raised + json" where
  "read_response lib sent =
     (case sent of
        Inl r \<Rightarrow> Inl r
      | Inr resp \<Rightarrow>
          (case raise_for_status lib resp of
             Inl r \<Rightarrow> Inl r
           | Inr u \<Rightarrow>
               (if response_text resp \<noteq> [] then response_json lib resp
                else Inr (JDict []))))"

text \<open>\<open>getattr(e.response, 'status_code', None)\<close>\<close>

definition response_status :: "response option \<Rightarrow> int option" where
  "response_status r = (case r of None \<Rightarrow> None | Some resp \<Rightarrow> Some (status_code resp))"

subsection \<open>mdm/mdm.py\<close>

record mdm =
  mdm_aw_environment :: pyobj
  mdm_auth :: workspace_one_auth

definition MDM_init :: "pyobj \<Rightarrow> workspace_one_auth \<Rightarrow> py_exc + mdm" where
  "MDM_init aw_environment workspaceOneAuth =
     Inr \<lparr>mdm_aw_environment = aw_environment, mdm_auth = workspaceOneAuth\<rparr>"

definition MDM_get_headers ::
  "library \<Rightarrow> mdm \<Rightarrow> string \<Rightarrow> (py_exc + (string \<times> pyval) list) \<times> event list" where
  "MDM_get_headers lib self url =
     (case get_cmsurl_header lib (mdm_auth self) url of
        (Inl e, tr) \<Rightarrow> (Inl e, tr)
      | (Inr authorization, tr) \<Rightarrow>
          (case getattr (mdm_aw_environment self) ''tenant_code'' of
             Inl e \<Rightarrow> (Inl e, tr)
           | Inr tenant_code \<Rightarrow>
               (Inr [(''Authorization'', (case authorization of None \<Rightarrow> PNone | Some h \<Rightarrow> PStr h)),
                     (''aw-tenant-code'', tenant_code),
                     (''Content-Type'', PStr ''application/json'')], tr)))"

definition MDM_send_request ::
  "library \<Rightarrow> mdm \<Rightarrow> string \<Rightarrow> string \<Rightarrow> json option \<Rightarrow> (py_exc + json) \<times> event list" where
  "MDM_send_request lib self method url data =
     (case MDM_get_headers lib self url of
        (Inl e, tr) \<Rightarrow> (Inl e, tr)
      | (Inr headers, tr) \<Rightarrow>
          (let req = \<lparr>req_method = method, req_url = url, req_headers = headers,
                      req_json = data, req_files = None, req_timeout = 90\<rparr>;
               tr' = tr @ [HttpRequest None req]
           in case read_response lib (http_send lib None req) of
                Inr result \<Rightarrow> (Inr result, tr')
              | Inl (RequestException msg resp) \<Rightarrow>
                  (Inl (APIRequestError (''API request to '' @ url @ '' failed'')
                          (response_status resp)), tr')
              | Inl (OtherException e) \<Rightarrow> (Inl e, tr')))"

subsection \<open>mam/mam.py\<close>

record mam =
  mam_aw_environment :: pyobj
  mam_auth :: workspace_one_auth
  mam_api_url :: pyval
  mam_tenant_code :: pyval

definition MAM_init :: "pyobj \<Rightarrow> workspace_one_auth \<Rightarrow> py_exc + mam" where
  "MAM_init aw_environment workspaceOneAuth =
     (case getattr aw_environment ''api_url'' of
        Inl e \<Rightarrow> Inl e
      | Inr api_url \<Rightarrow>
          (case getattr aw_environment ''tenant_code'' of
             Inl e \<Rightarrow> Inl e
           | Inr tenant_code \<Rightarrow>
               Inr \<lparr>mam_aw_environment = aw_environment, mam_auth = workspaceOneAuth,
                    mam_api_url = api_url, mam_tenant_code = tenant_code\<rparr>))"

definition MAM_get_headers ::
  "library \<Rightarrow> mam \<Rightarrow> string \<Rightarrow> (py_exc + (string \<times> pyval) list) \<times> event list" where
  "MAM_get_headers lib self url =
     (case get_cmsurl_header lib (mam_auth self) url of
        (Inl e, tr) \<Rightarrow> (Inl e, tr)
      | (Inr authorization, tr) \<Rightarrow>
          (Inr [(''Authorization'', (case authorization of None \<Rightarrow> PNone | Some h \<Rightarrow> PStr h)),
                (''aw-tenant-code'', mam_tenant_code self),
                (''Content-Type'', PStr ''application/json'')], tr))"

definition MAM_send_request ::
  "library \<Rightarrow> mam \<Rightarrow> string \<Rightarrow> string \<Rightarrow> json option \<Rightarrow> (string \<times> bytes) list option
   \<Rightarrow> (py_exc + json) \<times> event list" where
  "MAM_send_request lib self method url json_data files =
     (case MAM_get_headers lib self url of
        (Inl e, tr) \<Rightarrow> (Inl e, tr)
      | (Inr headers, tr) \<Rightarrow>
          (let req = \<lparr>req_method = method, req_url = url, req_headers = headers,
                      req_json = json_data, req_files = files, req_timeout = 90\<rparr>;
               tr' = tr @ [HttpRequest None req]
           in case read_response lib (http_send lib None req) of
                Inr result \<Rightarrow> (Inr result, tr')
              | Inl (RequestException msg resp) \<Rightarrow> (Inl (APIRequestError msg None), tr')
              | Inl (OtherException e) \<Rightarrow> (Inl e, tr')))"

subsection \<open>system/system.py\<close>

text \<open>
  \<open>requests.Session()\<close> mounts a default adapter, which does not retry, for both
  schemes; \<open>session.mount(prefix, adapter)\<close> binds the prefix to the adapter.
\<close>

definition Retry :: "nat \<Rightarrow> nat \<Rightarrow> int list \<Rightarrow> retry" where
  "Retry total' backoff_factor' status_forcelist' =
     \<lparr>total = total', backoff_factor = backoff_factor', status_forcelist = status_forcelist'\<rparr>"

definition HTTPAdapter :: "retry \<Rightarrow> http_adapter" where
  "HTTPAdapter max_retries' = \<lparr>max_retries = max_retries'\<rparr>"

definition requests_Session :: session where
  "requests_Session =
     \<lparr>adapters = [(''https://'', HTTPAdapter (Retry 0 0 [])),
                  (''http://'', HTTPAdapter (Retry 0 0 []))]\<rparr>"

definition mount :: "session \<Rightarrow> string \<Rightarrow> http_adapter \<Rightarrow> session" where
  "mount s prefix adapter = s\<lparr>adapters := AList.update prefix adapter (adapters s)\<rparr>"

record system =
  sys_aw_environment :: pyobj
  sys_auth :: workspace_one_auth
  sys_api_url :: pyval
  sys_tenant_code :: pyval
  sys_environment :: pyval
  sys_session :: session

definition System_init :: "pyobj \<Rightarrow> workspace_one_auth \<Rightarrow> py_exc + system" where
  "System_init awEnviroment workspaceOneAuth =
     (case getattr awEnviroment ''api_url'' of
        Inl e \<Rightarrow> Inl e
      | Inr api_url \<Rightarrow>
          (case getattr awEnviroment ''tenant_code'' of
             Inl e \<Rightarrow> Inl e
           | Inr tenant_code \<Rightarrow>
               (case getattr awEnviroment ''environment'' of
                  Inl e \<Rightarrow> Inl e
                | Inr environment \<Rightarrow>
                    (let session = requests_Session;
                         retries = Retry 3 1 [500, 502, 503, 504];
                         session = mount session ''https://'' (HTTPAdapter retries)
                     in Inr \<lparr>sys_aw_environment = awEnviroment, sys_auth = workspaceOneAuth,
                             sys_api_url = api_url, sys_tenant_code = tenant_code,
                             sys_environment = environment, sys_session = session\<rparr>))))"

definition System_get_headers ::
  "library \<Rightarrow> system \<Rightarrow> string \<Rightarrow> (py_exc + (string \<times> pyval) list) \<times> event list" where
  "System_get_headers lib self url =
     (case get_cmsurl_header lib (sys_auth self) url of
        (Inl e, tr) \<Rightarrow> (Inl e, tr)
      | (Inr authorization, tr) \<Rightarrow>
          (Inr [(''Authorization'', (case authorization of None \<Rightarrow> PNone | Some h \<Rightarrow> PStr h)),
                (''aw-tenant-code'', sys_tenant_code self),
                (''Content-Type'', PStr ''application/json'')], tr))"

definition System_send_request ::
  "library \<Rightarrow> system \<Rightarrow> string \<Rightarrow> string \<Rightarrow> json option \<Rightarrow> (py_exc + json) \<times> event list" where
  "System_send_request lib self method url json_data =
     (case System_get_headers lib self url of
        (Inl e, tr) \<Rightarrow> (Inl e, tr)
      | (Inr headers, tr) \<Rightarrow>
          (let req = \<lparr>req_method = method, req_url = url, req_headers = headers,
                      req_json = json_data, req_files = None, req_timeout = 90\<rparr>;
               tr' = tr @ [HttpRequest (Some (sys_session self)) req]
           in case read_response lib (http_send lib (Some (sys_session self)) req) of
                Inr result \<Rightarrow> (Inr result, tr')
              | Inl (RequestException msg resp) \<Rightarrow>
                  (Inl (APIRequestError (''API request to '' @ url @ '' failed'')
                          (response_status resp)), tr')
              | Inl (OtherException e) \<Rightarrow> (Inl e, tr')))"

subsection \<open>The class body of System and its two event-notification methods\<close>

text \<open>
  A class body is executed top to bottom: each \<open>def\<close> statement binds its name in the
  class namespace, and a later \<open>def\<close> of the same name rebinds it.  A function object
  is identified by the line of its \<open>def\<close> statement in \<open>system/system.py\<close>.
\<close>

definition System_class_body :: "(string \<times> nat) list" where
  "System_class_body =
     [(''__init__'', 16), (''_get_headers'', 31), (''_send_request'', 40),
      (''search_custom_user_group'', 57), (''create_custom_user_group'', 61),
      (''retrieve_list_of_users_from_group'', 70), (''search_for_enrollment_user'', 74),
      (''register_device_to_enrollment_user'', 78), (''create_new_enrollment_user'', 104),
      (''delete_custom_user_group'', 116), (''get_all_ogs_under_parent_og'', 120),
      (''add_user_to_custom_group'', 124), (''remove_user_from_custom_group'', 128),
      (''get_enrollment_user_by_uuid'', 132), (''get_organization_group_info'', 136),
      (''create_new_organization_group'', 140), (''delete_event_notification_rule'', 153),
      (''search_event_notifications'', 164), (''get_admin_identity'', 205),
      (''search_admins'', 223), (''get_admin_by_id'', 264), (''delete_admin_by_id'', 275),
      (''create_admin_user'', 286), (''update_admin_user'', 317),
      (''change_admin_password'', 351), (''add_role_to_admin'', 378),
      (''get_admin_about_page_config'', 406), (''update_admin_about_page_config'', 418),
      (''remove_role_from_admin'', 432), (''get_advanced_ldap_sync_jobs'', 460),
      (''create_advanced_ldap_sync_job'', 498), (''get_advanced_ldap_sync_job_details'', 518),
      (''approve_or_decline_ldap_sync_job'', 556), (''get_ldap_sync_job_status'', 586),
      (''get_android_work_settings'', 598), (''get_apns_certificate_request'', 610),
      (''save_apns_configuration'', 622), (''update_apns_configuration'', 651),
      (''get_app_content_storage_info'', 672), (''create_basic_to_directory_sync_job'', 684),
      (''get_directory_users_for_migration_job'', 704),
      (''get_matching_basic_users_for_ldap_user'', 741),
      (''migrate_basic_to_directory_users'', 752), (''update_synced_basic_user'', 766),
      (''delete_basic_to_directory_sync_job'', 786),
      (''delete_user_from_migration_list'', 797), (''get_mapped_users_for_sync_job'', 812),
      (''get_cloud_connector_status'', 835), (''create_custom_attribute'', 846),
      (''search_custom_attributes'', 878), (''get_custom_gateway_settings'', 910),
      (''bulk_update_custom_gateway_settings'', 922), (''get_custom_gateway_keys'', 935),
      (''get_custom_gateway_key_details'', 946), (''get_custom_reports_refresh_token'', 957),
      (''delete_registered_devices_by_asset_number'', 967),
      (''delete_registered_devices_by_serial_number'', 983),
      (''delete_registered_devices_by_udid'', 999), (''delete_registered_devices'', 1016),
      (''search_enrollment_tokens'', 1033), (''get_enrolled_devices'', 1065),
      (''get_registered_devices'', 1098), (''get_device_wipe_events'', 1129),
      (''perform_device_wipe_action'', 1165), (''create_device_wipe_report'', 1190),
      (''get_device_wipe_lock_state'', 1227), (''reset_device_wipe_lock'', 1250),
      (''get_dropship_provisioning'', 1271), (''enable_dropship_provisioning_v1'', 1284),
      (''create_enrollment_custom_attributes'', 1309),
      (''update_custom_attributes_by_serial'', 1325),
      (''delete_custom_attributes_by_serial'', 1344),
      (''create_custom_attributes_for_registered_device'', 1364),
      (''delete_custom_attributes_for_registered_device'', 1392),
      (''get_enrollment_customization_settings'', 1411),
      (''create_event_notification_rule'', 1434), (''create_event_notification_rule'', 1468),
      (''get_event_notification_rule_by_id'', 1502),
      (''update_event_notification_rule'', 1514), (''get_event_notification_rule'', 1526)]"

definition class_namespace :: "(string \<times> nat) list \<Rightarrow> string \<Rightarrow> nat option" where
  "class_namespace body = foldl (\<lambda>ns (name, d). ns(name \<mapsto> d)) Map.empty body"

definition System_namespace :: "string \<Rightarrow> nat option" where
  "System_namespace = class_namespace System_class_body"

text \<open>The definition at line 1434 (docstring: \<open>POST /system/eventnotifications\<close>).\<close>

definition create_event_notification_rule_1434 ::
  "library \<Rightarrow> system \<Rightarrow> json \<Rightarrow> json \<Rightarrow> json \<Rightarrow> json \<Rightarrow> json \<Rightarrow> json \<Rightarrow> json \<Rightarrow> json \<Rightarrow> json
   \<Rightarrow> json \<Rightarrow> json \<Rightarrow> (py_exc + json) \<times> event list" where
  "create_event_notification_rule_1434 lib self target_name target_url username password
     format_id is_active device_events organization_group_id organization_group_uuid
     id_value uuid =
     (let url = py_str (sys_api_url self) @ ''/system/eventnotifications'';
          payload = JDict
            [(''TargetName'', target_name),
             (''TargetUrl'', target_url),
             (''Username'', username),
             (''Password'', password),
             (''Format'', format_id),
             (''IsActive'', is_active),
             (''DeviceEvents'', device_events),
             (''organizationGroupId'', organization_group_id),
             (''organizationGroupUuid'', organization_group_uuid),
             (''id'', id_value),
             (''uuid'', uuid)]
      in System_send_request lib self ''POST'' url (Some payload))"

text \<open>
  The definition at line 1468 (docstring:
  \<open>POST /system/eventnotifications/V1/eventnotifications\<close>).  Its parameters are in
  another order: \<open>device_events\<close> comes after the two organization-group parameters.
\<close>

definition create_event_notification_rule_1468 ::
  "library \<Rightarrow> system \<Rightarrow> json \<Rightarrow> json \<Rightarrow> json \<Rightarrow> json \<Rightarrow> json \<Rightarrow> json \<Rightarrow> json \<Rightarrow> json \<Rightarrow> json
   \<Rightarrow> json \<Rightarrow> json \<Rightarrow> (py_exc + json) \<times> event list" where
  "create_event_notification_rule_1468 lib self target_name target_url username password
     format_id is_active organization_group_id organization_group_uuid device_events
     record_id uuid =
     (let url = py_str (sys_api_url self) @ ''/system/eventnotifications/V1/eventnotifications'';
          payload = JDict
            [(''TargetName'', target_name),
             (''TargetUrl'', target_url),
             (''Username'', username),
             (''Password'', password),
             (''Format'', format_id),
             (''IsActive'', is_active),
             (''DeviceEvents'', device_events),
             (''organizationGroupId'', organization_group_id),
             (''organizationGroupUuid'', organization_group_uuid),
             (''id'', record_id),
             (''uuid'', uuid)]
      in System_send_request lib self ''POST'' url (Some payload))"

text \<open>
  \<open>self.create_event_notification_rule(a1, ..., a11)\<close> on an instance of System, with
  eleven positional arguments: the name is looked up in the class namespace and the
  function object found there is applied.
\<close>

definition call_create_event_notification_rule ::
  "library \<Rightarrow> system \<Rightarrow> json \<Rightarrow> json \<Rightarrow> json \<Rightarrow> json \<Rightarrow> json \<Rightarrow> json \<Rightarrow> json \<Rightarrow> json \<Rightarrow> json
   \<Rightarrow> json \<Rightarrow> json \<Rightarrow> (py_exc + json) \<times> event list" where
  "call_create_event_notification_rule lib self a1 a2 a3 a4 a5 a6 a7 a8 a9 a10 a11 =
     (case System_namespace ''create_event_notification_rule'' of
        None \<Rightarrow> (Inl (PyExc AttributeError ''create_event_notification_rule''), [])
      | Some d \<Rightarrow>
          (if d = 1434
           then create_event_notification_rule_1434 lib self a1 a2 a3 a4 a5 a6 a7 a8 a9 a10 a11
           else if d = 1468
           then create_event_notification_rule_1468 lib self a1 a2 a3 a4 a5 a6 a7 a8 a9 a10 a11
           else (Inl (PyExc TypeError ''create_event_notification_rule''), [])))"

section \<open>An instance of the collaborators\<close>

subsection \<open>urllib.parse.urlparse\<close>

text \<open>
  The algorithm of CPython's \<open>urlsplit\<close> and \<open>urlparse\<close> on a \<open>str\<close>: strip leading
  control characters and spaces, drop tabs and line breaks, split off a scheme, a
  network location after \<open>//\<close>, the fragment after \<open>#\<close>, the query after \<open>?\<close>, and the
  parameters of the last path segment after \<open>;\<close>.  A network location with an
  unmatched bracket raises \<open>ValueError\<close>.  The validation of a bracketed host as an
  IP literal and the NFKC check of a non-ASCII network location are not part of
  this instance: it reports both kinds of URL as \<open>LibraryError\<close>.
\<close>

definition scheme_chars :: string where
  "scheme_chars = ''abcdefghijklmnopqrstuvwxyzABCDEFGHIJKLMNOPQRSTUVWXYZ0123456789+-.''"

definition uses_params :: "string list" where
  "uses_params = [[], ''ftp'', ''hdl'', ''prospero'', ''http'', ''imap'', ''https'', ''shttp'',
                  ''rtsp'', ''rtsps'', ''rtspu'', ''sip'', ''sips'', ''mms'', ''sftp'', ''tel'']"

definition c0_control_or_space :: "char \<Rightarrow> bool" where
  "c0_control_or_space c = ((of_char c :: nat) \<le> 32)"

definition unsafe_url_byte :: "char \<Rightarrow> bool" where
  "unsafe_url_byte c = ((of_char c :: nat) \<in> {9, 10, 13})"

definition ascii_alpha :: "char \<Rightarrow> bool" where
  "ascii_alpha c =
     (let n = (of_char c :: nat) in (65 \<le> n \<and> n \<le> 90) \<or> (97 \<le> n \<and> n \<le> 122))"

definition ascii_lower :: "char \<Rightarrow> char" where
  "ascii_lower c =
     (let n = (of_char c :: nat) in if 65 \<le> n \<and> n \<le> 90 then char_of (n + 32) else c)"

text \<open>\<open>s.split(c, 1)\<close> for a string that contains \<open>c\<close>.\<close>

definition split_first :: "char \<Rightarrow> string \<Rightarrow> string \<times> string" where
  "split_first c s = (takeWhile (\<lambda>x. x \<noteq> c) s, drop 1 (dropWhile (\<lambda>x. x \<noteq> c) s))"

definition split_scheme :: "string \<Rightarrow> string \<times> string" where
  "split_scheme url =
     (let pre = takeWhile (\<lambda>x. x \<noteq> CHR '':'') url
      in if CHR '':'' \<in> set url \<and> pre \<noteq> [] \<and> ascii_alpha (hd pre)
            \<and> list_all (\<lambda>c. c \<in> set scheme_chars) pre
         then (map ascii_lower pre, drop (length pre + 1) url)
         else ([], url))"

definition netloc_delim :: "char \<Rightarrow> bool" where
  "netloc_delim c = (c = CHR ''/'' \<or> c = CHR ''?'' \<or> c = CHR ''#'')"

definition splitparams :: "string \<Rightarrow> string \<times> string" where
  "splitparams url =
     (if CHR ''/'' \<in> set url
      then (let seg = rev (takeWhile (\<lambda>x. x \<noteq> CHR ''/'') (rev url));
                front = take (length url - length seg) url
            in if CHR '';'' \<in> set seg
               then (front @ fst (split_first CHR '';'' seg), snd (split_first CHR '';'' seg))
               else (url, []))
      else split_first CHR '';'' url)"

text \<open>The network location after \<open>//\<close>, and what follows it.\<close>

definition netloc_of :: "string \<Rightarrow> string" where
  "netloc_of v =
     (if take 2 v = ''//'' then takeWhile (\<lambda>c. \<not> netloc_delim c) (drop 2 v) else [])"

definition after_netloc :: "string \<Rightarrow> string" where
  "after_netloc v =
     (if take 2 v = ''//'' then dropWhile (\<lambda>c. \<not> netloc_delim c) (drop 2 v) else v)"

text \<open>\<open>if '#' in url: url, fragment = url.split('#', 1)\<close>, and the same for \<open>?\<close>.\<close>

definition before_hash :: "string \<Rightarrow> string" where
  "before_hash x = (if CHR ''#'' \<in> set x then fst (split_first CHR ''#'' x) else x)"

definition after_hash :: "string \<Rightarrow> string" where
  "after_hash x = (if CHR ''#'' \<in> set x then snd (split_first CHR ''#'' x) else [])"

definition before_query :: "string \<Rightarrow> string" where
  "before_query x = (if CHR ''?'' \<in> set x then fst (split_first CHR ''?'' x) else x)"

definition after_query :: "string \<Rightarrow> string" where
  "after_query x = (if CHR ''?'' \<in> set x then snd (split_first CHR ''?'' x) else [])"

text \<open>\<open>if scheme in uses_params and ';' in url: url, params = _splitparams(url)\<close>\<close>

definition params_split :: "string \<Rightarrow> string \<Rightarrow> string \<times> string" where
  "params_split sc x =
     (if sc \<in> set uses_params \<and> CHR '';'' \<in> set x then splitparams x else (x, []))"

definition py_urlparse :: "string \<Rightarrow> py_exc + parse_result" where
  "py_urlparse url0 =
     (let url1 = filter (\<lambda>c. \<not> unsafe_url_byte c) (dropWhile c0_control_or_space url0);
          scheme' = fst (split_scheme url1);
          url2 = snd (split_scheme url1);
          netloc' = netloc_of url2;
          url3 = after_netloc url2
      in if (CHR ''['' \<in> set netloc') \<noteq> (CHR '']'' \<in> set netloc')
         then Inl (PyExc ValueError ''Invalid IPv6 URL'')
         else if CHR ''['' \<in> set netloc' \<or> \<not> list_all (\<lambda>c. (of_char c :: nat) < 128) netloc'
         then Inl (PyExc LibraryError ''network location outside this instance'')
         else
           (let fragment' = after_hash url3;
                url4 = before_hash url3;
                query' = after_query url4;
                url5 = before_query url4
            in Inr \<lparr>scheme = scheme', netloc = netloc', path = fst (params_split scheme' url5),
                    params = snd (params_split scheme' url5),
                    query = query', fragment = fragment'\<rparr>))"

subsection \<open>A file system, a certificate store, a signer and a server\<close>

text \<open>
  One file \<open>client.p12\<close> exists; its bundle opens with the password \<open>secret\<close>.  The
  signer wraps the signed bytes.  The server answers 404 for a URL whose path ends in
  \<open>/missing\<close>, 200 with an empty body for one that ends in \<open>/empty\<close>, and 200 with
  the body \<open>[1]\<close> otherwise.
\<close>

definition demo_p12 :: bytes where
  "demo_p12 = [48, 130, 10]"

definition demo_open_rb :: "string \<Rightarrow> py_exc + bytes" where
  "demo_open_rb p =
     (if p = ''client.p12'' then Inr demo_p12
      else Inl (PyExc OSError (''No such file or directory: '' @ p)))"

definition demo_pkcs12_load ::
  "bytes \<Rightarrow> bytes \<Rightarrow> py_exc + (private_key option \<times> certificate option)" where
  "demo_pkcs12_load data pw =
     (if data = demo_p12 \<and> pw = utf8_encode ''secret''
      then Inr (Some (PrivateKey 1), Some (Certificate 1))
      else Inl (PyExc ValueError ''Invalid password or PKCS12 data''))"

definition demo_pkcs7_sign ::
  "certificate \<Rightarrow> private_key \<Rightarrow> hash_algorithm \<Rightarrow> bytes \<Rightarrow> encoding \<Rightarrow> pkcs7_option list
   \<Rightarrow> py_exc + bytes" where
  "demo_pkcs7_sign cert key h data enc opts = Inr (48 # data)"

definition ends_with :: "string \<Rightarrow> string \<Rightarrow> bool" where
  "ends_with s suffix = (length suffix \<le> length s \<and> drop (length s - length suffix) s = suffix)"

definition demo_http_send :: "session option \<Rightarrow> http_request \<Rightarrow> raised + response" where
  "demo_http_send s req =
     (case py_urlparse (req_url req) of
        Inl e \<Rightarrow> Inl (RequestException (exc_str e) None)
      | Inr u \<Rightarrow>
          (if ends_with (path u) ''/missing''
           then Inr \<lparr>status_code = 404, response_text = ''Not Found''\<rparr>
           else if ends_with (path u) ''/empty''
           then Inr \<lparr>status_code = 200, response_text = []\<rparr>
           else Inr \<lparr>status_code = 200, response_text = ''[1]''\<rparr>))"

definition demo_response_json :: "response \<Rightarrow> raised + json" where
  "demo_response_json resp =
     (if response_text resp = ''[1]'' then Inr (JList [JInt 1])
      else Inl (RequestException ''Expecting value'' None))"

definition demo_lib :: library where
  "demo_lib =
     \<lparr>open_rb = demo_open_rb, pkcs12_load = demo_pkcs12_load, pkcs7_sign = demo_pkcs7_sign,
      urlparse = py_urlparse, http_send = demo_http_send,
      http_error_msg = (\<lambda>resp. ''HTTP Error''), response_json = demo_response_json\<rparr>"

definition demo_env :: pyobj where
  "demo_env =
     [(''logger'', PLogger), (''api_url'', PStr ''https://host/api''),
      (''tenant_code'', PStr ''tenant''), (''parent_og'', PNone)]"

definition demo_auth :: workspace_one_auth where
  "demo_auth = \<lparr>cert_path = ''client.p12'', cert_pw = ''secret'', cert_bytes = None,
                use_memory_cert = False\<rparr>"

definition bad_auth :: workspace_one_auth where
  "bad_auth = \<lparr>cert_path = ''client.p12'', cert_pw = ''wrong'', cert_bytes = None,
               use_memory_cert = False\<rparr>"

definition missing_auth :: workspace_one_auth where
  "missing_auth = \<lparr>cert_path = ''absent.p12'', cert_pw = ''secret'', cert_bytes = None,
                   use_memory_cert = False\<rparr>"

definition memory_auth :: workspace_one_auth where
  "memory_auth = \<lparr>cert_path = [], cert_pw = ''secret'', cert_bytes = Some [0],
                  use_memory_cert = True\<rparr>"

text \<open>
  Dispatchers over these collaborators.  \<open>System\<close> needs an environment object that
  also has an attribute \<open>environment\<close>.
\<close>

definition demo_sys_env :: pyobj where
  "demo_sys_env = demo_env @ [(''environment'', PStr ''prod'')]"

definition demo_session :: session where
  "demo_session =
     \<lparr>adapters = [(''https://'', \<lparr>max_retries = \<lparr>total = 3, backoff_factor = 1,
                                     status_forcelist = [500, 502, 503, 504]\<rparr>\<rparr>),
                  (''http://'', \<lparr>max_retries = \<lparr>total = 0, backoff_factor = 0,
                                    status_forcelist = []\<rparr>\<rparr>)]\<rparr>"

definition demo_sys :: "workspace_one_auth \<Rightarrow> system" where
  "demo_sys a =
     \<lparr>sys_aw_environment = demo_sys_env, sys_auth = a,
      sys_api_url = PStr ''https://host/api'', sys_tenant_code = PStr ''tenant'',
      sys_environment = PStr ''prod'', sys_session = demo_session\<rparr>"

definition demo_mdm :: "workspace_one_auth \<Rightarrow> mdm" where
  "demo_mdm a = \<lparr>mdm_aw_environment = demo_env, mdm_auth = a\<rparr>"

definition demo_mam :: "workspace_one_auth \<Rightarrow> mam" where
  "demo_mam a =
     \<lparr>mam_aw_environment = demo_env, mam_auth = a,
      mam_api_url = PStr ''https://host/api'', mam_tenant_code = PStr ''tenant''\<rparr>"

subsection \<open>requests and urllib3: a request sent through a session\<close>

text \<open>
  What \<open>Session.request\<close> does with the retry policy of an adapter, as the
  documentation of \<open>requests.adapters.HTTPAdapter\<close> and of \<open>urllib3.util.Retry\<close>
  describes it; the parameters of \<open>Retry\<close> that the repository does not set have
  their defaults.  The adapter is the first one whose prefix the lower-cased URL
  starts with; without one the call raises \<open>InvalidSchema\<close>.  Each attempt on the
  wire is answered by a response, which may carry a \<open>Retry-After\<close> header, in
  seconds.  An answer is retried when the method is one of the idempotent methods
  and either the status is in \<open>status_forcelist\<close>, or retries are left and the
  answer has a \<open>Retry-After\<close> header and the status 413, 429 or 503.  Each retry
  takes one from \<open>total\<close>; a retry that is due when none is left raises
  \<open>RetryError\<close>, a \<open>RequestException\<close> without a response.  Before a retry the
  adapter sleeps for the \<open>Retry-After\<close> time if there is one, and otherwise for
  \<open>backoff_factor * 2 ^ (n - 1)\<close> seconds after the \<open>n\<close>-th answer in a row that was
  retried, at most 120, and not at all after the first.  Connection and read
  errors, which also count against \<open>total\<close>, and redirects are not part of this
  instance.
\<close>

datatype wire_answer = WireAnswer (answer_response: response) (retry_after: "nat option")

type_synonym wire = "nat \<Rightarrow> http_request \<Rightarrow> wire_answer"

datatype wire_event = Attempt nat wire_answer | Sleep nat



definition ascii_upper :: "char \<Rightarrow> char" where
  "ascii_upper c =
     (let n = (of_char c :: nat) in if 97 \<le> n \<and> n \<le> 122 then char_of (n - 32) else c)"

definition allowed_methods :: "string list" where
  "allowed_methods = [''HEAD'', ''GET'', ''PUT'', ''DELETE'', ''OPTIONS'', ''TRACE'']"

definition retry_after_status_codes :: "int list" where
  "retry_after_status_codes = [413, 429, 503]"

text \<open>
  \<open>Retry.is_retry(method, status_code, has_retry_after)\<close> of a policy whose
  \<open>total\<close> has come down to \<open>remaining\<close>.
\<close>

definition is_retry :: "retry \<Rightarrow> nat \<Rightarrow> string \<Rightarrow> wire_answer \<Rightarrow> bool" where
  "is_retry p remaining method a =
     (map ascii_upper method \<in> set allowed_methods
      \<and> (status_code (answer_response a) \<in> set (status_forcelist p)
          \<or> (remaining \<noteq> 0 \<and> retry_after a \<noteq> None
              \<and> status_code (answer_response a) \<in> set retry_after_status_codes)))"

definition get_backoff_time :: "retry \<Rightarrow> nat \<Rightarrow> nat" where
  "get_backoff_time p consecutive_errors =
     (if consecutive_errors \<le> 1 then 0
      else min 120 (backoff_factor p * 2 ^ (consecutive_errors - 1)))"

definition sleep_time :: "retry \<Rightarrow> wire_answer \<Rightarrow> nat \<Rightarrow> nat" where
  "sleep_time p a consecutive_errors =
     (case retry_after a of
        None \<Rightarrow> get_backoff_time p consecutive_errors
      | Some s \<Rightarrow> if s \<noteq> 0 then s else get_backoff_time p consecutive_errors)"

text \<open>
  The loop of \<open>urlopen\<close>: attempt number \<open>k\<close> with \<open>remaining\<close> retries left.
\<close>

fun urlopen :: "wire \<Rightarrow> http_request \<Rightarrow> retry \<Rightarrow> nat \<Rightarrow> nat
                \<Rightarrow> (raised + response) \<times> wire_event list" where
  "urlopen w req p k 0 =
     (let a = w k req
      in if is_retry p 0 (req_method req) a
         then (Inl (RequestException ''Max retries exceeded'' None), [Attempt k a])
         else (Inr (answer_response a), [Attempt k a]))"
| "urlopen w req p k (Suc remaining) =
     (let a = w k req
      in if is_retry p (Suc remaining) (req_method req) a
         then (fst (urlopen w req p (Suc k) remaining),
               Attempt k a # Sleep (sleep_time p a (Suc k))
                 # snd (urlopen w req p (Suc k) remaining))
         else (Inr (answer_response a), [Attempt k a]))"

definition starts_with :: "string \<Rightarrow> string \<Rightarrow> bool" where
  "starts_with s prefix = (take (length prefix) s = prefix)"

fun get_adapter :: "(string \<times> http_adapter) list \<Rightarrow> string \<Rightarrow> http_adapter option" where
  "get_adapter [] url = None"
| "get_adapter ((prefix, adapter) # rest) url =
     (if starts_with (map ascii_lower url) (map ascii_lower prefix) then Some adapter
      else get_adapter rest url)"

definition session_send :: "wire \<Rightarrow> session \<Rightarrow> http_request
                            \<Rightarrow> (raised + response) \<times> wire_event list" where
  "session_send w s req =
     (case get_adapter (adapters s) (req_url req) of
        None \<Rightarrow> (Inl (RequestException ''No connection adapters were found'' None), [])
      | Some adapter \<Rightarrow>
          urlopen w req (max_retries adapter) 0 (retry.total (max_retries adapter)))"




definition wire_404 :: wire where
  "wire_404 k req = WireAnswer \<lparr>status_code = 404, response_text = ''Not Found''\<rparr> None"


definition users_search :: "string \<Rightarrow> (string \<times> pyval) list \<Rightarrow> http_request" where
  "users_search method headers =
     \<lparr>req_method = method, req_url = ''https://host/api/system/users/search'',
      req_headers = headers, req_json = None, req_files = None, req_timeout = 90\<rparr>"

section \<open>Traces of the operations\<close>

lemma load_p12_cert_error_class:
  "load_p12_cert lib self p pw = (Inl e, tr) \<Longrightarrow> exc_class_of e = Some CMSURLError"
  by (auto simp: load_p12_cert_def load_failure_def Let_def
           split: if_splits option.splits sum.splits prod.splits)

lemma load_p12_cert_trace:
  "load_p12_cert lib self p pw = (r, tr) \<Longrightarrow> filter is_sign tr = [] \<and> filter is_http tr = []"
  by (auto simp: load_p12_cert_def Let_def
           split: if_splits option.splits sum.splits prod.splits)

lemma sign_data_trace:
  "sign_data lib k c d = (r, tr) \<Longrightarrow>
     tr = [Pkcs7Sign c k SHA512 (utf8_encode d) DER [DetachedSignature]]"
  by (auto simp: sign_data_def Let_def split: sum.splits)

lemma get_cmsurl_header_no_http:
  assumes "get_cmsurl_header lib self url = (r, tr)"
  shows "filter is_http tr = []"
proof -
  obtain r0 tr0 where L: "load_p12_cert lib self (cert_path self) (cert_pw self) = (r0, tr0)"
    by fastforce
  have "filter is_http tr0 = []"
    using load_p12_cert_trace[OF L] by simp
  with assms L show ?thesis
    by (auto simp: get_cmsurl_header_def Let_def
             split: prod.splits sum.splits option.splits if_splits
             dest!: sign_data_trace)
qed

lemma MDM_get_headers_no_http:
  "MDM_get_headers lib m url = (r, tr) \<Longrightarrow> filter is_http tr = []"
  by (auto simp: MDM_get_headers_def split: prod.splits sum.splits
           dest: get_cmsurl_header_no_http)

lemma MDM_send_request_http:
  "filter is_http (snd (MDM_send_request lib m method url data)) =
     (case fst (MDM_get_headers lib m url) of
        Inl e \<Rightarrow> []
      | Inr headers \<Rightarrow>
          [HttpRequest None \<lparr>req_method = method, req_url = url, req_headers = headers,
             req_json = data, req_files = None, req_timeout = 90\<rparr>])"
  by (auto simp: MDM_send_request_def Let_def split: prod.splits sum.splits raised.splits
           dest: MDM_get_headers_no_http)

lemma MAM_get_headers_no_http:
  "MAM_get_headers lib m url = (r, tr) \<Longrightarrow> filter is_http tr = []"
  by (auto simp: MAM_get_headers_def split: prod.splits sum.splits
           dest: get_cmsurl_header_no_http)

lemma MAM_send_request_http:
  "filter is_http (snd (MAM_send_request lib m method url data files)) =
     (case fst (MAM_get_headers lib m url) of
        Inl e \<Rightarrow> []
      | Inr headers \<Rightarrow>
          [HttpRequest None \<lparr>req_method = method, req_url = url, req_headers = headers,
             req_json = data, req_files = files, req_timeout = 90\<rparr>])"
  by (auto simp: MAM_send_request_def Let_def split: prod.splits sum.splits raised.splits
           dest: MAM_get_headers_no_http)

lemma System_get_headers_no_http:
  "System_get_headers lib m url = (r, tr) \<Longrightarrow> filter is_http tr = []"
  by (auto simp: System_get_headers_def split: prod.splits sum.splits
           dest: get_cmsurl_header_no_http)

lemma System_send_request_http:
  "filter is_http (snd (System_send_request lib m method url data)) =
     (case fst (System_get_headers lib m url) of
        Inl e \<Rightarrow> []
      | Inr headers \<Rightarrow>
          [HttpRequest (Some (sys_session m)) \<lparr>req_method = method, req_url = url, req_headers = headers,
             req_json = data, req_files = None, req_timeout = 90\<rparr>])"
  by (auto simp: System_send_request_def Let_def split: prod.splits sum.splits raised.splits
           dest: System_get_headers_no_http)

lemma get_cmsurl_header_raises:
  "fst (get_cmsurl_header lib self url) = Inl e \<Longrightarrow> urlparse lib url = Inl e"
proof -
  assume a: "fst (get_cmsurl_header lib self url) = Inl e"
  obtain r tr where L: "load_p12_cert lib self (cert_path self) (cert_pw self) = (r, tr)"
    by fastforce
  have "exc_class_of e' = Some CMSURLError" if "r = Inl e'" for e'
    using load_p12_cert_error_class L that by simp
  with a L show ?thesis
    by (auto simp: get_cmsurl_header_def Let_def
             split: sum.splits option.splits prod.splits if_splits)
qed

lemma MDM_get_headers_fst:
  "fst (MDM_get_headers lib self url) =
     (case fst (get_cmsurl_header lib (mdm_auth self) url) of
        Inl e \<Rightarrow> Inl e
      | Inr authorization \<Rightarrow>
          (case getattr (mdm_aw_environment self) ''tenant_code'' of
             Inl e \<Rightarrow> Inl e
           | Inr tenant_code \<Rightarrow>
               Inr [(''Authorization'', (case authorization of None \<Rightarrow> PNone | Some h \<Rightarrow> PStr h)),
                    (''aw-tenant-code'', tenant_code),
                    (''Content-Type'', PStr ''application/json'')]))"
  by (simp add: MDM_get_headers_def split: prod.splits sum.splits)

lemma MAM_get_headers_fst:
  "fst (MAM_get_headers lib self url) =
     (case fst (get_cmsurl_header lib (mam_auth self) url) of
        Inl e \<Rightarrow> Inl e
      | Inr authorization \<Rightarrow>
          Inr [(''Authorization'', (case authorization of None \<Rightarrow> PNone | Some h \<Rightarrow> PStr h)),
               (''aw-tenant-code'', mam_tenant_code self),
               (''Content-Type'', PStr ''application/json'')])"
  by (simp add: MAM_get_headers_def split: prod.splits sum.splits)

lemma System_get_headers_fst:
  "fst (System_get_headers lib self url) =
     (case fst (get_cmsurl_header lib (sys_auth self) url) of
        Inl e \<Rightarrow> Inl e
      | Inr authorization \<Rightarrow>
          Inr [(''Authorization'', (case authorization of None \<Rightarrow> PNone | Some h \<Rightarrow> PStr h)),
               (''aw-tenant-code'', sys_tenant_code self),
               (''Content-Type'', PStr ''application/json'')])"
  by (simp add: System_get_headers_def split: prod.splits sum.splits)

text \<open>The result of a send operation, by the outcome of building the headers.\<close>

lemma MDM_send_request_fst:
  "fst (MDM_send_request lib self method url data) =
     (case fst (MDM_get_headers lib self url) of
        Inl e \<Rightarrow> Inl e
      | Inr headers \<Rightarrow>
          (case read_response lib (http_send lib None
                  \<lparr>req_method = method, req_url = url, req_headers = headers,
                   req_json = data, req_files = None, req_timeout = 90\<rparr>) of
             Inr result \<Rightarrow> Inr result
           | Inl (RequestException msg resp) \<Rightarrow>
               Inl (APIRequestError (''API request to '' @ url @ '' failed'')
                      (response_status resp))
           | Inl (OtherException e) \<Rightarrow> Inl e))"
  by (simp add: MDM_send_request_def Let_def split: prod.splits sum.splits raised.splits)

lemma MAM_send_request_fst:
  "fst (MAM_send_request lib self method url json_data files) =
     (case fst (MAM_get_headers lib self url) of
        Inl e \<Rightarrow> Inl e
      | Inr headers \<Rightarrow>
          (case read_response lib (http_send lib None
                  \<lparr>req_method = method, req_url = url, req_headers = headers,
                   req_json = json_data, req_files = files, req_timeout = 90\<rparr>) of
             Inr result \<Rightarrow> Inr result
           | Inl (RequestException msg resp) \<Rightarrow> Inl (APIRequestError msg None)
           | Inl (OtherException e) \<Rightarrow> Inl e))"
  by (simp add: MAM_send_request_def Let_def split: prod.splits sum.splits raised.splits)

lemma System_send_request_fst:
  "fst (System_send_request lib self method url json_data) =
     (case fst (System_get_headers lib self url) of
        Inl e \<Rightarrow> Inl e
      | Inr headers \<Rightarrow>
          (case read_response lib (http_send lib (Some (sys_session self))
                  \<lparr>req_method = method, req_url = url, req_headers = headers,
                   req_json = json_data, req_files = None, req_timeout = 90\<rparr>) of
             Inr result \<Rightarrow> Inr result
           | Inl (RequestException msg resp) \<Rightarrow>
               Inl (APIRequestError (''API request to '' @ url @ '' failed'')
                      (response_status resp))
           | Inl (OtherException e) \<Rightarrow> Inl e))"
  by (simp add: System_send_request_def Let_def split: prod.splits sum.splits raised.splits)

section \<open>Evaluating the instance\<close>

lemma utf8_secret: "utf8_encode ''secret'' = [115, 101, 99, 114, 101, 116]"
  by (simp add: utf8_encode_def utf8_char_def)

lemma utf8_wrong: "utf8_encode ''wrong'' = [119, 114, 111, 110, 103]"
  by (simp add: utf8_encode_def utf8_char_def)

lemma utf8_ab: "utf8_encode ''/a/b'' = [47, 97, 47, 98]"
  by (simp add: utf8_encode_def utf8_char_def)

lemma demo_load_ok:
  "load_p12_cert demo_lib demo_auth ''client.p12'' ''secret'' =
     (Inr (Some (PrivateKey 1), Some (Certificate 1)),
      [Open ''client.p12'', Pkcs12Load demo_p12 (utf8_encode ''secret'')])"
  by (simp add: load_p12_cert_def demo_lib_def demo_auth_def demo_open_rb_def
                demo_pkcs12_load_def Let_def)

lemma demo_load_bad:
  "load_p12_cert demo_lib bad_auth ''client.p12'' ''wrong'' =
     (Inl (load_failure (PyExc ValueError ''Invalid password or PKCS12 data'')),
      [Open ''client.p12'', Pkcs12Load demo_p12 (utf8_encode ''wrong'')])"
  by (simp add: load_p12_cert_def demo_lib_def bad_auth_def demo_open_rb_def
                demo_pkcs12_load_def Let_def utf8_secret utf8_wrong)

lemma b64_demo: "b64encode [48, 47, 97, 47, 98] = ''MC9hL2I=''"
  by (simp add: b64_char_def b64_alphabet_def)

lemma py_urlparse_x1:
  "py_urlparse ''https://host/a/b?x=1'' =
     Inr \<lparr>scheme = ''https'', netloc = ''host'', path = ''/a/b'', params = [],
          query = ''x=1'', fragment = []\<rparr>"
  by code_simp

lemma py_urlparse_x2:
  "py_urlparse ''https://host/a/b?x=2'' =
     Inr \<lparr>scheme = ''https'', netloc = ''host'', path = ''/a/b'', params = [],
          query = ''x=2'', fragment = []\<rparr>"
  by code_simp

lemma demo_get_cmsurl_header_bad:
  "get_cmsurl_header demo_lib bad_auth url =
     (Inr None, [Open ''client.p12'', Pkcs12Load demo_p12 (utf8_encode ''wrong'')])"
proof -
  have "cert_path bad_auth = ''client.p12''" "cert_pw bad_auth = ''wrong''"
    by (simp_all add: bad_auth_def)
  then show ?thesis
    by (simp add: get_cmsurl_header_def demo_load_bad load_failure_def)
qed

lemma demo_get_cmsurl_header_x1:
  "get_cmsurl_header demo_lib demo_auth ''https://host/a/b?x=1'' =
     (Inr (Some ''CMSURL`1 MC9hL2I=''),
      [Open ''client.p12'', Pkcs12Load demo_p12 (utf8_encode ''secret''),
       Pkcs7Sign (Certificate 1) (PrivateKey 1) SHA512 [47, 97, 47, 98] DER [DetachedSignature]])"
proof -
  have a: "cert_path demo_auth = ''client.p12''" "cert_pw demo_auth = ''secret''"
    by (simp_all add: demo_auth_def)
  have u: "urlparse demo_lib = py_urlparse" and s: "pkcs7_sign demo_lib = demo_pkcs7_sign"
    by (simp_all add: demo_lib_def)
  show ?thesis
    by (simp add: get_cmsurl_header_def a demo_load_ok u py_urlparse_x1 sign_data_def s
                  demo_pkcs7_sign_def utf8_ab Let_def b64_char_def b64_alphabet_def)
qed

lemma b64encode_Man: "b64encode [77, 97, 110] = ''TWFu''"
  by (simp add: b64_char_def b64_alphabet_def)

lemma py_urlparse_V1:
  "py_urlparse ''https://host/api/system/eventnotifications/V1/eventnotifications'' =
     Inr \<lparr>scheme = ''https'', netloc = ''host'',
          path = ''/api/system/eventnotifications/V1/eventnotifications'', params = [],
          query = [], fragment = []\<rparr>"
  by code_simp

lemma py_urlparse_bracket:
  "py_urlparse ''https://[host/a'' = Inl (PyExc ValueError ''Invalid IPv6 URL'')"
  by code_simp

lemma py_urlparse_missing:
  "py_urlparse ''https://host/api/missing'' =
     Inr \<lparr>scheme = ''https'', netloc = ''host'', path = ''/api/missing'', params = [],
          query = [], fragment = []\<rparr>"
  by code_simp

lemma demo_get_cmsurl_header_bracket:
  "get_cmsurl_header demo_lib demo_auth ''https://[host/a'' =
     (Inl (PyExc ValueError ''Invalid IPv6 URL''),
      [Open ''client.p12'', Pkcs12Load demo_p12 (utf8_encode ''secret'')])"
proof -
  have a: "cert_path demo_auth = ''client.p12''" "cert_pw demo_auth = ''secret''"
    by (simp_all add: demo_auth_def)
  have u: "urlparse demo_lib = py_urlparse"
    by (simp add: demo_lib_def)
  show ?thesis
    by (simp add: get_cmsurl_header_def a demo_load_ok u py_urlparse_bracket)
qed


text \<open>The objects of the instance are what the constructors return.\<close>

lemma demo_objects_constructed:
  "AWEnvironment_init ''https://host/api'' ''tenant'' None = Inr demo_env"
  "WorkspaceOneAuth_init ''client.p12'' ''secret'' = Inr demo_auth"
  "WorkspaceOneAuth_init ''client.p12'' ''wrong'' = Inr bad_auth"
  "WorkspaceOneAuth_init ''absent.p12'' ''secret'' = Inr missing_auth"
  "from_memory [0] ''secret'' = Inr memory_auth"
  "MDM_init demo_env workspaceOneAuth = Inr (demo_mdm workspaceOneAuth)"
  "MAM_init demo_env workspaceOneAuth = Inr (demo_mam workspaceOneAuth)"
  by (simp_all add: AWEnvironment_init_def WorkspaceOneAuth_init_def from_memory_def MDM_init_def
        MAM_init_def demo_env_def demo_auth_def bad_auth_def missing_auth_def memory_auth_def
        demo_mdm_def demo_mam_def getattr_def)

text \<open>Test vectors of \<open>b64encode\<close>, with one and two bytes of padding.\<close>

lemma b64encode_vectors:
  "b64encode [77] = ''TQ==''"
  "b64encode [77, 97] = ''TWE=''"
  "b64encode [255, 254, 253, 0, 16] = ''//79ABA=''"
  "b64encode [] = []"
  by (simp_all add: b64_char_def b64_alphabet_def)

section \<open>The environment configuration\<close>

text \<open>
  Claim C8.  Constructing \<open>AWEnvironment\<close> raises \<open>ValueError\<close> whenever \<open>api_url\<close> or
  \<open>tenant_code\<close> is empty.  When both are non-empty the construction succeeds, and the
  object holds \<open>api_url\<close>, \<open>tenant_code\<close> and \<open>parent_og\<close> as they were passed.
\<close>

theorem AWEnvironment_init_contract:
  "(api_url = [] \<or> tenant_code = [] \<longrightarrow>
      AWEnvironment_init api_url tenant_code parent_og =
        Inl (PyExc ValueError ''Both 'api_url' and 'tenant_code' are required.''))
   \<and> (api_url \<noteq> [] \<and> tenant_code \<noteq> [] \<longrightarrow>
      (\<exists>self. AWEnvironment_init api_url tenant_code parent_og = Inr self
         \<and> getattr self ''api_url'' = Inr (PStr api_url)
         \<and> getattr self ''tenant_code'' = Inr (PStr tenant_code)
         \<and> getattr self ''parent_og'' =
               Inr (case parent_og of None \<Rightarrow> PNone | Some og \<Rightarrow> PStr og)))"
  by (simp add: AWEnvironment_init_def getattr_def)

theorem AWEnvironment_init_contract_witness:
  "AWEnvironment_init [] ''tenant'' None =
      Inl (PyExc ValueError ''Both 'api_url' and 'tenant_code' are required.'')
   \<and> AWEnvironment_init ''https://host/api'' [] (Some ''570'') =
      Inl (PyExc ValueError ''Both 'api_url' and 'tenant_code' are required.'')
   \<and> (\<exists>self. AWEnvironment_init ''https://host/api'' ''tenant'' (Some ''570'') = Inr self
         \<and> getattr self ''api_url'' = Inr (PStr ''https://host/api'')
         \<and> getattr self ''tenant_code'' = Inr (PStr ''tenant'')
         \<and> getattr self ''parent_og'' = Inr (PStr ''570''))"
  using AWEnvironment_init_contract [of "[]" "''tenant''" None]
        AWEnvironment_init_contract [of "''https://host/api''" "[]" "Some ''570''"]
        AWEnvironment_init_contract [of "''https://host/api''" "''tenant''" "Some ''570''"]
  by simp

section \<open>Constructing System from an AWEnvironment\<close>

text \<open>
  Claim C10.  For every object that the constructor of \<open>AWEnvironment\<close> returns,
  \<open>System(awEnviroment, workspaceOneAuth)\<close> raises \<open>AttributeError\<close>: the constructor
  of \<open>System\<close> reads the attribute \<open>environment\<close>, which \<open>AWEnvironment\<close> never sets.
\<close>

theorem System_init_rejects_AWEnvironment:
  "AWEnvironment_init api_url tenant_code parent_og = Inr env \<Longrightarrow>
     System_init env workspaceOneAuth = Inl (PyExc AttributeError ''environment'')"
  by (auto simp: AWEnvironment_init_def System_init_def getattr_def split: if_splits)

theorem System_init_rejects_AWEnvironment_witness:
  "AWEnvironment_init ''https://host/api'' ''tenant'' None = Inr demo_env
   \<and> System_init demo_env demo_auth = Inl (PyExc AttributeError ''environment'')"
proof -
  have h: "AWEnvironment_init ''https://host/api'' ''tenant'' None = Inr demo_env"
    by (simp add: AWEnvironment_init_def demo_env_def)
  show ?thesis
    using h System_init_rejects_AWEnvironment [OF h, of demo_auth] by simp
qed

section \<open>The authenticator\<close>

text \<open>
  Claim C4.  If loading the PKCS#12 bundle fails, the failure raised by the load step
  is a \<open>CMSURLError\<close>, and \<open>get_cmsurl_header\<close> returns \<open>None\<close> without calling
  the signer.  The load step fails when the file cannot be read, and when the bundle
  (read from the file or held in memory) cannot be decoded with the password.
\<close>

theorem load_failure_gives_no_header:
  "(fst (load_p12_cert lib self (cert_path self) (cert_pw self)) = Inl e \<longrightarrow>
       exc_class_of e = Some CMSURLError
     \<and> fst (get_cmsurl_header lib self url) = Inr None
     \<and> filter is_sign (snd (get_cmsurl_header lib self url)) = [])
   \<and> (\<not> use_memory_cert self \<and> open_rb lib (cert_path self) = Inl e' \<longrightarrow>
       fst (load_p12_cert lib self (cert_path self) (cert_pw self)) = Inl (load_failure e'))
   \<and> (\<not> use_memory_cert self \<and> open_rb lib (cert_path self) = Inr data
       \<and> pkcs12_load lib data (utf8_encode (cert_pw self)) = Inl e' \<longrightarrow>
       fst (load_p12_cert lib self (cert_path self) (cert_pw self)) = Inl (load_failure e'))
   \<and> (use_memory_cert self \<and> cert_bytes self = Some data
       \<and> pkcs12_load lib data (utf8_encode (cert_pw self)) = Inl e' \<longrightarrow>
       fst (load_p12_cert lib self (cert_path self) (cert_pw self)) = Inl (load_failure e'))"
proof -
  obtain r tr where L: "load_p12_cert lib self (cert_path self) (cert_pw self) = (r, tr)"
    by fastforce
  have cls: "exc_class_of e = Some CMSURLError" if "r = Inl e"
    using load_p12_cert_error_class L that by simp
  have nosign: "filter is_sign tr = []"
    using load_p12_cert_trace [OF L] by simp
  have hdr: "get_cmsurl_header lib self url = (Inr None, tr)" if "r = Inl e"
    using L that cls by (simp add: get_cmsurl_header_def)
  have first: "fst (load_p12_cert lib self (cert_path self) (cert_pw self)) = Inl e \<longrightarrow>
       exc_class_of e = Some CMSURLError
     \<and> fst (get_cmsurl_header lib self url) = Inr None
     \<and> filter is_sign (snd (get_cmsurl_header lib self url)) = []"
    using L cls hdr nosign by simp
  have causes: "(\<not> use_memory_cert self \<and> open_rb lib (cert_path self) = Inl e' \<longrightarrow>
       fst (load_p12_cert lib self (cert_path self) (cert_pw self)) = Inl (load_failure e'))
   \<and> (\<not> use_memory_cert self \<and> open_rb lib (cert_path self) = Inr data
       \<and> pkcs12_load lib data (utf8_encode (cert_pw self)) = Inl e' \<longrightarrow>
       fst (load_p12_cert lib self (cert_path self) (cert_pw self)) = Inl (load_failure e'))
   \<and> (use_memory_cert self \<and> cert_bytes self = Some data
       \<and> pkcs12_load lib data (utf8_encode (cert_pw self)) = Inl e' \<longrightarrow>
       fst (load_p12_cert lib self (cert_path self) (cert_pw self)) = Inl (load_failure e'))"
    by (simp add: load_p12_cert_def Let_def)
  from first causes show ?thesis by blast
qed

theorem load_failure_gives_no_header_witness:
  "fst (get_cmsurl_header demo_lib bad_auth ''https://host/a/b?x=1'') = Inr None
   \<and> filter is_sign (snd (get_cmsurl_header demo_lib bad_auth ''https://host/a/b?x=1'')) = []
   \<and> fst (load_p12_cert demo_lib bad_auth (cert_path bad_auth) (cert_pw bad_auth)) =
       Inl (PyExc CMSURLError
             ''Failed to load PKCS#12 certificate: Invalid password or PKCS12 data'')
   \<and> fst (load_p12_cert demo_lib missing_auth (cert_path missing_auth) (cert_pw missing_auth)) =
       Inl (PyExc CMSURLError
             ''Failed to load PKCS#12 certificate: No such file or directory: absent.p12'')
   \<and> fst (load_p12_cert demo_lib memory_auth (cert_path memory_auth) (cert_pw memory_auth)) =
       Inl (PyExc CMSURLError
             ''Failed to load PKCS#12 certificate: Invalid password or PKCS12 data'')"
proof -
  let ?bad = "PyExc ValueError ''Invalid password or PKCS12 data''"
  let ?gone = "PyExc OSError ''No such file or directory: absent.p12''"
  have b: "\<not> use_memory_cert bad_auth \<and> open_rb demo_lib (cert_path bad_auth) = Inr demo_p12
           \<and> pkcs12_load demo_lib demo_p12 (utf8_encode (cert_pw bad_auth)) = Inl ?bad"
    by (simp add: bad_auth_def demo_lib_def demo_open_rb_def demo_pkcs12_load_def
                  utf8_secret utf8_wrong)
  have m: "\<not> use_memory_cert missing_auth \<and> open_rb demo_lib (cert_path missing_auth) = Inl ?gone"
    by (simp add: missing_auth_def demo_lib_def demo_open_rb_def)
  have y: "use_memory_cert memory_auth \<and> cert_bytes memory_auth = Some [0]
           \<and> pkcs12_load demo_lib [0] (utf8_encode (cert_pw memory_auth)) = Inl ?bad"
    by (simp add: memory_auth_def demo_lib_def demo_pkcs12_load_def demo_p12_def)
  from b load_failure_gives_no_header [of demo_lib bad_auth "load_failure ?bad"
         "''https://host/a/b?x=1''" ?bad demo_p12]
  have 1: "fst (load_p12_cert demo_lib bad_auth (cert_path bad_auth) (cert_pw bad_auth)) =
             Inl (load_failure ?bad)
           \<and> fst (get_cmsurl_header demo_lib bad_auth ''https://host/a/b?x=1'') = Inr None
           \<and> filter is_sign (snd (get_cmsurl_header demo_lib bad_auth ''https://host/a/b?x=1'')) = []"
    by simp
  from m load_failure_gives_no_header [of demo_lib missing_auth _ _ ?gone]
  have 2: "fst (load_p12_cert demo_lib missing_auth (cert_path missing_auth) (cert_pw missing_auth)) =
             Inl (load_failure ?gone)"
    by simp
  from y load_failure_gives_no_header [of demo_lib memory_auth _ _ ?bad "[0]"]
  have 3: "fst (load_p12_cert demo_lib memory_auth (cert_path memory_auth) (cert_pw memory_auth)) =
             Inl (load_failure ?bad)"
    by simp
  from 1 2 3 show ?thesis by (simp add: load_failure_def)
qed

text \<open>The output of \<open>b64encode\<close> is over the base64 alphabet and padded to groups of four.\<close>

lemma b64encode_chars: "set (b64encode bs) \<subseteq> set b64_alphabet \<union> {CHR ''=''}"
proof (induction bs rule: b64encode.induct)
  case 1
  then show ?case by simp
next
  case (2 a)
  have "b64_char n \<in> set b64_alphabet" for n
    unfolding b64_char_def by (rule nth_mem) (simp add: b64_alphabet_def)
  then show ?case by (simp add: Let_def)
next
  case (3 a b)
  have "b64_char n \<in> set b64_alphabet" for n
    unfolding b64_char_def by (rule nth_mem) (simp add: b64_alphabet_def)
  then show ?case by (simp add: Let_def)
next
  case (4 a b c rest)
  have "b64_char n \<in> set b64_alphabet" for n
    unfolding b64_char_def by (rule nth_mem) (simp add: b64_alphabet_def)
  with 4 show ?case by (auto simp: Let_def)
qed

lemma b64encode_length: "length (b64encode bs) = 4 * ((length bs + 2) div 3)"
  by (induction bs rule: b64encode.induct) (simp_all add: Let_def, presburger)

text \<open>
  Claim C2.  For every URL on which certificate loading, URL parsing and signing
  succeed, \<open>get_cmsurl_header\<close> returns the literal \<open>CMSURL`1\<close>, a space, and the
  base64 encoding of the container that the signer returns for the UTF-8 bytes of
  the URL's path, the private key, SHA-512, DER and the detached-signature option.
\<close>

theorem get_cmsurl_header_value:
  assumes "fst (load_p12_cert lib self (cert_path self) (cert_pw self)) = Inr (Some key, Some cert)"
    and "urlparse lib url = Inr u"
    and "pkcs7_sign lib cert key SHA512 (utf8_encode (path u)) DER [DetachedSignature] = Inr der"
  shows "fst (get_cmsurl_header lib self url) = Inr (Some (''CMSURL`1 '' @ b64encode der))
         \<and> set (b64encode der) \<subseteq> set b64_alphabet \<union> {CHR ''=''}
         \<and> length (b64encode der) = 4 * ((length der + 2) div 3)"
proof -
  obtain tr where L: "load_p12_cert lib self (cert_path self) (cert_pw self) = (Inr (Some key, Some cert), tr)"
    using assms(1) by (cases "load_p12_cert lib self (cert_path self) (cert_pw self)") simp
  have "fst (get_cmsurl_header lib self url) = Inr (Some (''CMSURL`1 '' @ b64encode der))"
    using L assms(2,3) by (simp add: get_cmsurl_header_def sign_data_def Let_def)
  then show ?thesis
    using b64encode_chars b64encode_length by blast
qed

theorem get_cmsurl_header_value_witness:
  "fst (get_cmsurl_header demo_lib demo_auth ''https://host/a/b?x=1'') =
     Inr (Some ''CMSURL`1 MC9hL2I='')"
proof -
  let ?u = "\<lparr>scheme = ''https'', netloc = ''host'', path = ''/a/b'', params = [],
            query = ''x=1'', fragment = []\<rparr>"
  have h1: "fst (load_p12_cert demo_lib demo_auth (cert_path demo_auth) (cert_pw demo_auth)) =
              Inr (Some (PrivateKey 1), Some (Certificate 1))"
    by (simp add: demo_auth_def demo_load_ok [unfolded demo_auth_def])
  have h2: "urlparse demo_lib ''https://host/a/b?x=1'' = Inr ?u"
    by (simp add: demo_lib_def py_urlparse_x1)
  have h3: "pkcs7_sign demo_lib (Certificate 1) (PrivateKey 1) SHA512 (utf8_encode (path ?u)) DER
              [DetachedSignature] = Inr [48, 47, 97, 47, 98]"
    by (simp add: demo_lib_def demo_pkcs7_sign_def utf8_ab)
  from get_cmsurl_header_value [OF h1 h2 h3]
  have "fst (get_cmsurl_header demo_lib demo_auth ''https://host/a/b?x=1'') =
          Inr (Some (''CMSURL`1 '' @ b64encode [48, 47, 97, 47, 98]))"
    by (rule conjunct1)
  then show ?thesis
    unfolding b64_demo by simp
qed

section \<open>The query string and the path of a parsed URL\<close>

text \<open>
  In the model of \<open>urlparse\<close>, appending a query string to a URL that has neither
  query nor fragment changes neither the path nor whether parsing fails.
\<close>

lemma strip_query:
  "dropWhile c0_control_or_space (u @ CHR ''?'' # q) =
     dropWhile c0_control_or_space u @ CHR ''?'' # q"
  by (induction u) (simp_all add: c0_control_or_space_def)

lemma filter_query:
  "filter (\<lambda>c. \<not> unsafe_url_byte c) (v @ CHR ''?'' # q) =
     filter (\<lambda>c. \<not> unsafe_url_byte c) v @ CHR ''?'' # filter (\<lambda>c. \<not> unsafe_url_byte c) q"
  by (simp add: unsafe_url_byte_def)

lemma split_scheme_query:
  assumes "CHR ''?'' \<notin> set v"
  shows "split_scheme (v @ CHR ''?'' # w) =
           (fst (split_scheme v), snd (split_scheme v) @ CHR ''?'' # w)"
proof (cases "CHR '':'' \<in> set v")
  case True
  then have t: "takeWhile (\<lambda>x. x \<noteq> CHR '':'') (v @ CHR ''?'' # w) = takeWhile (\<lambda>x. x \<noteq> CHR '':'') v"
    by (induction v) auto
  from True have "length (takeWhile (\<lambda>x. x \<noteq> CHR '':'') v) < length v"
    by (induction v) auto
  then show ?thesis
    using True by (simp add: split_scheme_def t Let_def)
next
  case False
  then have t: "takeWhile (\<lambda>x. x \<noteq> CHR '':'') (v @ CHR ''?'' # w) =
                  v @ CHR ''?'' # takeWhile (\<lambda>x. x \<noteq> CHR '':'') w"
    by (induction v) auto
  have "CHR ''?'' \<notin> set scheme_chars"
    by (simp add: scheme_chars_def)
  then show ?thesis
    using False by (simp add: split_scheme_def t Let_def)
qed

lemma split_scheme_suffix: "set (snd (split_scheme v)) \<subseteq> set v"
  by (auto simp: split_scheme_def Let_def dest: in_set_dropD)

lemma take2_query:
  "CHR ''?'' \<notin> set v \<Longrightarrow> (take 2 (v @ CHR ''?'' # w) = ''//'') = (take 2 v = ''//'')"
  by (cases v; cases "tl v") auto

lemma netloc_query:
  assumes "CHR ''?'' \<notin> set v"
  shows "takeWhile (\<lambda>c. \<not> netloc_delim c) (v @ CHR ''?'' # w) =
           takeWhile (\<lambda>c. \<not> netloc_delim c) v"
    and "dropWhile (\<lambda>c. \<not> netloc_delim c) (v @ CHR ''?'' # w) =
           dropWhile (\<lambda>c. \<not> netloc_delim c) v @ CHR ''?'' # w"
  by (induction v) (simp_all add: netloc_delim_def)

lemma split_first_query:
  "CHR ''?'' \<notin> set v \<Longrightarrow> fst (split_first CHR ''?'' (v @ CHR ''?'' # w)) = v"
  by (induction v) (auto simp: split_first_def)

lemma split_first_hash:
  "CHR ''#'' \<notin> set v \<Longrightarrow>
     fst (split_first CHR ''#'' (v @ CHR ''?'' # w)) = v @ CHR ''?'' # takeWhile (\<lambda>x. x \<noteq> CHR ''#'') w"
  by (induction v) (auto simp: split_first_def)

lemma netloc_of_query:
  "CHR ''?'' \<notin> set v \<Longrightarrow> netloc_of (v @ CHR ''?'' # w) = netloc_of v"
proof -
  assume a: "CHR ''?'' \<notin> set v"
  have dr: "drop 2 (v @ CHR ''?'' # w) = drop 2 v @ CHR ''?'' # w" if "take 2 v = ''//''"
    using that by (cases v; cases "tl v") auto
  have d: "CHR ''?'' \<notin> set (drop 2 v)"
    using a by (auto dest: in_set_dropD)
  show ?thesis
  proof (cases "take 2 v = ''//''")
    case True
    show ?thesis
      unfolding netloc_of_def take2_query [OF a]
      by (simp only: True dr [OF True] netloc_query [OF d] if_True simp_thms)
  next
    case False
    show ?thesis
      unfolding netloc_of_def take2_query [OF a]
      by (simp only: False if_False)
  qed
qed

lemma after_netloc_query:
  "CHR ''?'' \<notin> set v \<Longrightarrow> after_netloc (v @ CHR ''?'' # w) = after_netloc v @ CHR ''?'' # w"
proof -
  assume a: "CHR ''?'' \<notin> set v"
  have dr: "drop 2 (v @ CHR ''?'' # w) = drop 2 v @ CHR ''?'' # w" if "take 2 v = ''//''"
    using that by (cases v; cases "tl v") auto
  have d: "CHR ''?'' \<notin> set (drop 2 v)"
    using a by (auto dest: in_set_dropD)
  show ?thesis
  proof (cases "take 2 v = ''//''")
    case True
    show ?thesis
      unfolding after_netloc_def take2_query [OF a]
      by (simp only: True dr [OF True] netloc_query [OF d] if_True simp_thms)
  next
    case False
    show ?thesis
      unfolding after_netloc_def take2_query [OF a]
      by (simp only: False if_False)
  qed
qed

lemma after_netloc_suffix: "set (after_netloc v) \<subseteq> set v"
  by (auto simp: after_netloc_def dest: set_dropWhileD in_set_dropD)

lemma before_query_hash:
  assumes "CHR ''?'' \<notin> set v" and "CHR ''#'' \<notin> set v"
  shows "before_query (before_hash (v @ CHR ''?'' # w)) = v"
    and "before_query (before_hash v) = v"
  using assms by (simp_all add: before_query_def before_hash_def split_first_hash split_first_query)

lemma py_urlparse_query_irrelevant:
  assumes "CHR ''?'' \<notin> set u" and "CHR ''#'' \<notin> set u"
  shows "map_sum id path (py_urlparse (u @ CHR ''?'' # q)) = map_sum id path (py_urlparse u)"
proof -
  let ?f = "filter (\<lambda>c. \<not> unsafe_url_byte c)"
  define u1 where "u1 = ?f (dropWhile c0_control_or_space u)"
  define q1 where "q1 = ?f q"
  have u1: "CHR ''?'' \<notin> set u1" "CHR ''#'' \<notin> set u1"
    using assms by (auto simp: u1_def dest: set_dropWhileD)
  define u2 where "u2 = snd (split_scheme u1)"
  have u2: "CHR ''?'' \<notin> set u2" "CHR ''#'' \<notin> set u2"
    using u1 split_scheme_suffix [of u1] by (auto simp: u2_def)
  have u3: "CHR ''?'' \<notin> set (after_netloc u2)" "CHR ''#'' \<notin> set (after_netloc u2)"
    using u2 after_netloc_suffix [of u2] by auto
  have x1: "?f (dropWhile c0_control_or_space (u @ CHR ''?'' # q)) = u1 @ CHR ''?'' # q1"
    by (simp only: strip_query filter_query u1_def q1_def)
  have sc: "fst (split_scheme (u1 @ CHR ''?'' # q1)) = fst (split_scheme u1)"
    and x2: "snd (split_scheme (u1 @ CHR ''?'' # q1)) = u2 @ CHR ''?'' # q1"
    by (simp_all add: split_scheme_query [OF u1(1)] u2_def)
  have nl: "netloc_of (u2 @ CHR ''?'' # q1) = netloc_of u2"
    by (rule netloc_of_query [OF u2(1)])
  have p: "before_query (before_hash (after_netloc (u2 @ CHR ''?'' # q1))) =
           before_query (before_hash (after_netloc u2))"
    by (simp only: after_netloc_query [OF u2(1)] before_query_hash [OF u3])
  show ?thesis
    unfolding py_urlparse_def Let_def x1 sc x2 nl
    using p by (simp add: u1_def u2_def params_split_def)
qed

text \<open>
  Claim C3.  Two URLs with the same path component give the same call of
  \<open>get_cmsurl_header\<close>: the same result and the same trace, so the same bytes are
  signed, and the bytes signed are the UTF-8 bytes of the path.  Scheme, host and
  query string have no influence.
\<close>

theorem signing_input_is_the_path:
  assumes "urlparse lib url1 = Inr u1" and "urlparse lib url2 = Inr u2" and "path u1 = path u2"
  shows "get_cmsurl_header lib self url1 = get_cmsurl_header lib self url2
         \<and> (\<forall>c k h d enc os. Pkcs7Sign c k h d enc os \<in> set (snd (get_cmsurl_header lib self url1))
              \<longrightarrow> d = utf8_encode (path u1))"
proof -
  obtain r tr where L: "load_p12_cert lib self (cert_path self) (cert_pw self) = (r, tr)"
    by fastforce
  have nosign: "filter is_sign tr = []"
    using load_p12_cert_trace [OF L] by simp
  have eq: "get_cmsurl_header lib self url1 = get_cmsurl_header lib self url2"
    using assms by (simp add: get_cmsurl_header_def Let_def split: prod.splits sum.splits option.splits)
  have "d = utf8_encode (path u1)"
    if "Pkcs7Sign c k h d enc os \<in> set (snd (get_cmsurl_header lib self url1))" for c k h d enc os
  proof -
    have "Pkcs7Sign c k h d enc os \<notin> set tr"
    proof
      assume "Pkcs7Sign c k h d enc os \<in> set tr"
      then have "Pkcs7Sign c k h d enc os \<in> set (filter is_sign tr)" by simp
      with nosign show False by simp
    qed
    with that L assms(1) show ?thesis
      by (auto simp: get_cmsurl_header_def Let_def sign_data_def
               split: sum.splits option.splits if_splits prod.splits)
  qed
  with eq show ?thesis by blast
qed

theorem signing_input_is_the_path_witness:
  "get_cmsurl_header demo_lib demo_auth ''https://host/a/b?x=1'' =
     get_cmsurl_header demo_lib demo_auth ''https://host/a/b?x=2''
   \<and> Pkcs7Sign (Certificate 1) (PrivateKey 1) SHA512 [47, 97, 47, 98] DER [DetachedSignature]
       \<in> set (snd (get_cmsurl_header demo_lib demo_auth ''https://host/a/b?x=1''))
   \<and> [47, 97, 47, 98] = utf8_encode ''/a/b''"
proof -
  let ?u1 = "\<lparr>scheme = ''https'', netloc = ''host'', path = ''/a/b'', params = [],
             query = ''x=1'', fragment = []\<rparr>"
  let ?u2 = "\<lparr>scheme = ''https'', netloc = ''host'', path = ''/a/b'', params = [],
             query = ''x=2'', fragment = []\<rparr>"
  have h1: "urlparse demo_lib ''https://host/a/b?x=1'' = Inr ?u1"
    by (simp add: demo_lib_def py_urlparse_x1)
  have h2: "urlparse demo_lib ''https://host/a/b?x=2'' = Inr ?u2"
    by (simp add: demo_lib_def py_urlparse_x2)
  have h3: "path ?u1 = path ?u2" by simp
  have mem: "Pkcs7Sign (Certificate 1) (PrivateKey 1) SHA512 [47, 97, 47, 98] DER [DetachedSignature]
       \<in> set (snd (get_cmsurl_header demo_lib demo_auth ''https://host/a/b?x=1''))"
    by (simp add: demo_get_cmsurl_header_x1)
  note inst = signing_input_is_the_path [OF h1 h2 h3, of demo_auth]
  from inst have eq: "get_cmsurl_header demo_lib demo_auth ''https://host/a/b?x=1'' =
     get_cmsurl_header demo_lib demo_auth ''https://host/a/b?x=2''"
    by (rule conjunct1)
  from inst mem have "[47, 97, 47, 98] = utf8_encode (path ?u1)"
    by blast
  with eq mem show ?thesis
    by simp
qed

section \<open>The two definitions of create\_event\_notification\_rule\<close>

lemma foldl_bind_map_of:
  "foldl (\<lambda>ns (name, d). ns(name \<mapsto> d)) m body = m ++ map_of (rev body)"
  by (induction body arbitrary: m) (auto simp: map_add_def fun_eq_iff split: option.splits)

lemma class_namespace_map_of: "class_namespace body = map_of (rev body)"
  by (simp add: class_namespace_def foldl_bind_map_of)

lemma System_namespace_create_event_notification_rule:
  "System_namespace ''create_event_notification_rule'' = Some 1468"
  by (simp add: System_namespace_def class_namespace_map_of System_class_body_def)

lemma System_class_body_1434:
  "(name, 1434) \<in> set System_class_body \<Longrightarrow> name = ''create_event_notification_rule''"
  by (simp add: System_class_body_def)

lemma System_namespace_never_1434: "System_namespace name \<noteq> Some 1434"
proof
  assume a: "System_namespace name = Some 1434"
  then have "(name, 1434) \<in> set (rev System_class_body)"
    unfolding System_namespace_def class_namespace_map_of by (rule map_of_SomeD)
  then have "name = ''create_event_notification_rule''"
    using System_class_body_1434 by simp
  with a show False
    by (simp add: System_namespace_create_event_notification_rule)
qed

text \<open>
  Claim C9.  The class body of \<open>System\<close> has two \<open>def\<close> statements named
  \<open>create_event_notification_rule\<close>, at lines 1434 and 1468.  The first posts to
  \<open>/system/eventnotifications\<close>, the second to
  \<open>/system/eventnotifications/V1/eventnotifications\<close>.  The name resolves to the
  second; no name of the class resolves to the first; every HTTP request that a call
  of \<open>create_event_notification_rule\<close> issues is a POST to the V1 path.
\<close>

theorem create_event_notification_rule_is_V1:
  "(''create_event_notification_rule'', 1434) \<in> set System_class_body
   \<and> (''create_event_notification_rule'', 1468) \<in> set System_class_body
   \<and> System_namespace ''create_event_notification_rule'' = Some 1468
   \<and> (\<forall>name. System_namespace name \<noteq> Some 1434)
   \<and> call_create_event_notification_rule lib self a1 a2 a3 a4 a5 a6 a7 a8 a9 a10 a11 =
       create_event_notification_rule_1468 lib self a1 a2 a3 a4 a5 a6 a7 a8 a9 a10 a11
   \<and> (\<forall>s req. HttpRequest s req \<in>
          set (snd (call_create_event_notification_rule lib self a1 a2 a3 a4 a5 a6 a7 a8 a9 a10 a11))
        \<longrightarrow> req_method req = ''POST''
            \<and> req_url req =
                py_str (sys_api_url self) @ ''/system/eventnotifications/V1/eventnotifications'')
   \<and> (\<forall>s req. HttpRequest s req \<in>
          set (snd (create_event_notification_rule_1434 lib self a1 a2 a3 a4 a5 a6 a7 a8 a9 a10 a11))
        \<longrightarrow> req_method req = ''POST''
            \<and> req_url req = py_str (sys_api_url self) @ ''/system/eventnotifications'')"
proof -
  have both: "(''create_event_notification_rule'', 1434) \<in> set System_class_body
              \<and> (''create_event_notification_rule'', 1468) \<in> set System_class_body"
    by (simp add: System_class_body_def)
  have call: "call_create_event_notification_rule lib self a1 a2 a3 a4 a5 a6 a7 a8 a9 a10 a11 =
       create_event_notification_rule_1468 lib self a1 a2 a3 a4 a5 a6 a7 a8 a9 a10 a11"
    by (simp add: call_create_event_notification_rule_def
                  System_namespace_create_event_notification_rule)
  have sent: "req_method req = m \<and> req_url req = u"
    if "HttpRequest s req \<in> set (snd (System_send_request lib self m u j))" for s req m u j
  proof -
    from that have "HttpRequest s req \<in> set (filter is_http (snd (System_send_request lib self m u j)))"
      by simp
    then show ?thesis
      unfolding System_send_request_http by (auto split: sum.splits)
  qed
  have v1: "\<forall>s req. HttpRequest s req \<in>
          set (snd (call_create_event_notification_rule lib self a1 a2 a3 a4 a5 a6 a7 a8 a9 a10 a11))
        \<longrightarrow> req_method req = ''POST''
            \<and> req_url req =
                py_str (sys_api_url self) @ ''/system/eventnotifications/V1/eventnotifications''"
    unfolding call create_event_notification_rule_1468_def Let_def using sent by blast
  have legacy: "\<forall>s req. HttpRequest s req \<in>
          set (snd (create_event_notification_rule_1434 lib self a1 a2 a3 a4 a5 a6 a7 a8 a9 a10 a11))
        \<longrightarrow> req_method req = ''POST''
            \<and> req_url req = py_str (sys_api_url self) @ ''/system/eventnotifications''"
    unfolding create_event_notification_rule_1434_def Let_def using sent by blast
  from both System_namespace_create_event_notification_rule System_namespace_never_1434
    call v1 legacy
  show ?thesis by blast
qed

theorem create_event_notification_rule_is_V1_witness:
  "\<exists>s req. HttpRequest s req \<in> set (snd (call_create_event_notification_rule demo_lib
        (demo_sys demo_auth) (JStr ''siem'') (JStr ''https://siem/hook'') (JStr ''u'')
        (JStr ''p'') (JInt 1) (JBool True) (JInt 570) (JStr ''og-uuid'') (JDict []) (JInt 7)
        (JStr ''rule-uuid'')))
     \<and> req_method req = ''POST''
     \<and> req_url req = ''https://host/api/system/eventnotifications/V1/eventnotifications''"
proof -
  let ?url = "''https://host/api/system/eventnotifications/V1/eventnotifications''"
  let ?call = "call_create_event_notification_rule demo_lib
        (demo_sys demo_auth) (JStr ''siem'') (JStr ''https://siem/hook'') (JStr ''u'')
        (JStr ''p'') (JInt 1) (JBool True) (JInt 570) (JStr ''og-uuid'') (JDict []) (JInt 7)
        (JStr ''rule-uuid'')"
  note inst = create_event_notification_rule_is_V1 [of demo_lib "demo_sys demo_auth"
        "JStr ''siem''" "JStr ''https://siem/hook''" "JStr ''u''"
        "JStr ''p''" "JInt 1" "JBool True" "JInt 570" "JStr ''og-uuid''" "JDict []" "JInt 7"
        "JStr ''rule-uuid''"]
  have u: "urlparse demo_lib ?url \<noteq> Inl e" for e
    by (simp add: demo_lib_def py_urlparse_V1)
  have "fst (get_cmsurl_header demo_lib demo_auth ?url) \<noteq> Inl e" for e
    using get_cmsurl_header_raises [of demo_lib demo_auth ?url e] u by blast
  then obtain a where a: "fst (get_cmsurl_header demo_lib demo_auth ?url) = Inr a"
    by (cases "fst (get_cmsurl_header demo_lib demo_auth ?url)") auto
  have api: "py_str (sys_api_url (demo_sys demo_auth)) = ''https://host/api''"
    and au: "sys_auth (demo_sys demo_auth) = demo_auth"
    by (simp_all add: demo_sys_def)
  from inst have c: "?call = create_event_notification_rule_1468 demo_lib
        (demo_sys demo_auth) (JStr ''siem'') (JStr ''https://siem/hook'') (JStr ''u'')
        (JStr ''p'') (JInt 1) (JBool True) (JInt 570) (JStr ''og-uuid'') (JDict []) (JInt 7)
        (JStr ''rule-uuid'')"
    by blast
  have "filter is_http (snd ?call) \<noteq> []"
    unfolding c create_event_notification_rule_1468_def Let_def System_send_request_http
      System_get_headers_fst api au
    using a by simp
  then obtain ev where ev: "ev \<in> set (snd ?call)" "is_http ev"
    by (metis filter_False)
  from ev(2) obtain s req where e: "ev = HttpRequest s req"
    by (cases ev) simp_all
  from inst have "\<forall>s req. HttpRequest s req \<in> set (snd ?call)
        \<longrightarrow> req_method req = ''POST''
            \<and> req_url req = py_str (sys_api_url (demo_sys demo_auth))
                 @ ''/system/eventnotifications/V1/eventnotifications''"
    by blast
  with ev(1) e have "req_method req = ''POST''
       \<and> req_url req = py_str (sys_api_url (demo_sys demo_auth))
                 @ ''/system/eventnotifications/V1/eventnotifications''"
    by blast
  then have "req_method req = ''POST'' \<and> req_url req = ?url"
    by (simp add: api)
  with ev(1) e show ?thesis
    by blast
qed

section \<open>The dispatchers and a missing header\<close>

text \<open>
  Claim C1 says that a request whose header generation fails never reaches the
  transport.  The dispatchers do not look at what \<open>get_cmsurl_header\<close> returns: with
  a bundle that cannot be decoded it returns \<open>None\<close>, and \<open>_send_request\<close> of each
  class still calls the transport once, with \<open>None\<close> as the value of
  \<open>Authorization\<close>.
\<close>

theorem request_sent_without_header_counterexample:
  "fst (get_cmsurl_header demo_lib bad_auth ''https://host/api/mdm/devices/serialnumber/X1'')
     = Inr None
   \<and> filter is_http (snd (MDM_send_request demo_lib (demo_mdm bad_auth) ''GET''
       ''https://host/api/mdm/devices/serialnumber/X1'' None)) =
     [HttpRequest None
        \<lparr>req_method = ''GET'', req_url = ''https://host/api/mdm/devices/serialnumber/X1'',
         req_headers = [(''Authorization'', PNone), (''aw-tenant-code'', PStr ''tenant''),
                        (''Content-Type'', PStr ''application/json'')],
         req_json = None, req_files = None, req_timeout = 90\<rparr>]
   \<and> filter is_http (snd (MAM_send_request demo_lib (demo_mam bad_auth) ''GET''
       ''https://host/api/mdm/devices/serialnumber/X1'' None None)) \<noteq> []
   \<and> filter is_http (snd (System_send_request demo_lib (demo_sys bad_auth) ''GET''
       ''https://host/api/mdm/devices/serialnumber/X1'' None)) \<noteq> []"
  by (simp add: MDM_send_request_http MAM_send_request_http System_send_request_http
                MDM_get_headers_fst MAM_get_headers_fst System_get_headers_fst
                demo_get_cmsurl_header_bad demo_mdm_def demo_mam_def demo_sys_def
                demo_env_def getattr_def)

text \<open>
  Claim C1, amended.  If \<open>get_cmsurl_header\<close> returns \<open>None\<close> for the request's URL,
  the send operation of \<open>MDM\<close>, \<open>MAM\<close> and \<open>System\<close> still issues exactly one HTTP
  request, whose header mapping has \<open>Authorization\<close> set to \<open>None\<close> next to the tenant
  code and the content type.  If \<open>get_cmsurl_header\<close> raises, no HTTP request is
  issued and the exception reaches the caller.
\<close>

theorem send_request_with_no_header:
  "(fst (get_cmsurl_header lib (mdm_auth m) url) = Inr None
      \<and> getattr (mdm_aw_environment m) ''tenant_code'' = Inr tc \<longrightarrow>
      filter is_http (snd (MDM_send_request lib m method url data)) =
        [HttpRequest None
           \<lparr>req_method = method, req_url = url,
            req_headers = [(''Authorization'', PNone), (''aw-tenant-code'', tc),
                           (''Content-Type'', PStr ''application/json'')],
            req_json = data, req_files = None, req_timeout = 90\<rparr>])
   \<and> (fst (get_cmsurl_header lib (mam_auth a) url) = Inr None \<longrightarrow>
      filter is_http (snd (MAM_send_request lib a method url data files)) =
        [HttpRequest None
           \<lparr>req_method = method, req_url = url,
            req_headers = [(''Authorization'', PNone), (''aw-tenant-code'', mam_tenant_code a),
                           (''Content-Type'', PStr ''application/json'')],
            req_json = data, req_files = files, req_timeout = 90\<rparr>])
   \<and> (fst (get_cmsurl_header lib (sys_auth s) url) = Inr None \<longrightarrow>
      filter is_http (snd (System_send_request lib s method url data)) =
        [HttpRequest (Some (sys_session s))
           \<lparr>req_method = method, req_url = url,
            req_headers = [(''Authorization'', PNone), (''aw-tenant-code'', sys_tenant_code s),
                           (''Content-Type'', PStr ''application/json'')],
            req_json = data, req_files = None, req_timeout = 90\<rparr>])
   \<and> (fst (get_cmsurl_header lib (mdm_auth m) url) = Inl e \<longrightarrow>
      filter is_http (snd (MDM_send_request lib m method url data)) = []
      \<and> fst (MDM_send_request lib m method url data) = Inl e)
   \<and> (fst (get_cmsurl_header lib (mam_auth a) url) = Inl e \<longrightarrow>
      filter is_http (snd (MAM_send_request lib a method url data files)) = []
      \<and> fst (MAM_send_request lib a method url data files) = Inl e)
   \<and> (fst (get_cmsurl_header lib (sys_auth s) url) = Inl e \<longrightarrow>
      filter is_http (snd (System_send_request lib s method url data)) = []
      \<and> fst (System_send_request lib s method url data) = Inl e)"
  by (simp add: MDM_send_request_http MAM_send_request_http System_send_request_http
                MDM_send_request_fst MAM_send_request_fst System_send_request_fst
                MDM_get_headers_fst MAM_get_headers_fst System_get_headers_fst)

theorem send_request_with_no_header_witness:
  "filter is_http (snd (MDM_send_request demo_lib (demo_mdm bad_auth) ''GET''
       ''https://host/api/mdm/devices/serialnumber/X1'' None)) =
     [HttpRequest None
        \<lparr>req_method = ''GET'', req_url = ''https://host/api/mdm/devices/serialnumber/X1'',
         req_headers = [(''Authorization'', PNone), (''aw-tenant-code'', PStr ''tenant''),
                        (''Content-Type'', PStr ''application/json'')],
         req_json = None, req_files = None, req_timeout = 90\<rparr>]
   \<and> filter is_http (snd (MAM_send_request demo_lib (demo_mam bad_auth) ''GET''
       ''https://host/api/mam/apps/search'' None None)) =
     [HttpRequest None
        \<lparr>req_method = ''GET'', req_url = ''https://host/api/mam/apps/search'',
         req_headers = [(''Authorization'', PNone), (''aw-tenant-code'', PStr ''tenant''),
                        (''Content-Type'', PStr ''application/json'')],
         req_json = None, req_files = None, req_timeout = 90\<rparr>]
   \<and> filter is_http (snd (System_send_request demo_lib (demo_sys bad_auth) ''GET''
       ''https://host/api/system/users/search'' None)) =
     [HttpRequest (Some demo_session)
        \<lparr>req_method = ''GET'', req_url = ''https://host/api/system/users/search'',
         req_headers = [(''Authorization'', PNone), (''aw-tenant-code'', PStr ''tenant''),
                        (''Content-Type'', PStr ''application/json'')],
         req_json = None, req_files = None, req_timeout = 90\<rparr>]
   \<and> filter is_http (snd (MDM_send_request demo_lib (demo_mdm demo_auth) ''GET''
       ''https://[host/a'' None)) = []
   \<and> filter is_http (snd (MAM_send_request demo_lib (demo_mam demo_auth) ''GET''
       ''https://[host/a'' None None)) = []
   \<and> filter is_http (snd (System_send_request demo_lib (demo_sys demo_auth) ''GET''
       ''https://[host/a'' None)) = []"
proof -
  have none: "fst (get_cmsurl_header demo_lib bad_auth url) = Inr None" for url
    by (simp add: demo_get_cmsurl_header_bad)
  have raise: "fst (get_cmsurl_header demo_lib demo_auth ''https://[host/a'') =
                 Inl (PyExc ValueError ''Invalid IPv6 URL'')"
    by (simp add: demo_get_cmsurl_header_bracket)
  have sel: "mdm_auth (demo_mdm x) = x" "mam_auth (demo_mam x) = x" "sys_auth (demo_sys x) = x"
    "getattr (mdm_aw_environment (demo_mdm x)) ''tenant_code'' = Inr (PStr ''tenant'')"
    "mam_tenant_code (demo_mam x) = PStr ''tenant''"
    "sys_tenant_code (demo_sys x) = PStr ''tenant''"
    "sys_session (demo_sys x) = demo_session" for x
    by (simp_all add: demo_mdm_def demo_mam_def demo_sys_def demo_env_def getattr_def)
  from send_request_with_no_header [of demo_lib "demo_mdm bad_auth"
         "''https://host/api/mdm/devices/serialnumber/X1''" "PStr ''tenant''" "''GET''" None
         "demo_mam bad_auth" None "demo_sys bad_auth"] none sel
  have 1: "filter is_http (snd (MDM_send_request demo_lib (demo_mdm bad_auth) ''GET''
       ''https://host/api/mdm/devices/serialnumber/X1'' None)) =
     [HttpRequest None
        \<lparr>req_method = ''GET'', req_url = ''https://host/api/mdm/devices/serialnumber/X1'',
         req_headers = [(''Authorization'', PNone), (''aw-tenant-code'', PStr ''tenant''),
                        (''Content-Type'', PStr ''application/json'')],
         req_json = None, req_files = None, req_timeout = 90\<rparr>]"
    by simp
  from send_request_with_no_header [of demo_lib "demo_mdm bad_auth"
         "''https://host/api/mam/apps/search''" "PStr ''tenant''" "''GET''" None
         "demo_mam bad_auth" None "demo_sys bad_auth"] none sel
  have 2: "filter is_http (snd (MAM_send_request demo_lib (demo_mam bad_auth) ''GET''
       ''https://host/api/mam/apps/search'' None None)) =
     [HttpRequest None
        \<lparr>req_method = ''GET'', req_url = ''https://host/api/mam/apps/search'',
         req_headers = [(''Authorization'', PNone), (''aw-tenant-code'', PStr ''tenant''),
                        (''Content-Type'', PStr ''application/json'')],
         req_json = None, req_files = None, req_timeout = 90\<rparr>]"
    by simp
  from send_request_with_no_header [of demo_lib "demo_mdm bad_auth"
         "''https://host/api/system/users/search''" "PStr ''tenant''" "''GET''" None
         "demo_mam bad_auth" None "demo_sys bad_auth"] none sel
  have 3: "filter is_http (snd (System_send_request demo_lib (demo_sys bad_auth) ''GET''
       ''https://host/api/system/users/search'' None)) =
     [HttpRequest (Some demo_session)
        \<lparr>req_method = ''GET'', req_url = ''https://host/api/system/users/search'',
         req_headers = [(''Authorization'', PNone), (''aw-tenant-code'', PStr ''tenant''),
                        (''Content-Type'', PStr ''application/json'')],
         req_json = None, req_files = None, req_timeout = 90\<rparr>]"
    by simp
  from send_request_with_no_header [of demo_lib "demo_mdm demo_auth"
         "''https://[host/a''" _ "''GET''" None
         "demo_mam demo_auth" None "demo_sys demo_auth" "PyExc ValueError ''Invalid IPv6 URL''"]
       raise sel
  have 4: "filter is_http (snd (MDM_send_request demo_lib (demo_mdm demo_auth) ''GET''
       ''https://[host/a'' None)) = []
   \<and> filter is_http (snd (MAM_send_request demo_lib (demo_mam demo_auth) ''GET''
       ''https://[host/a'' None None)) = []
   \<and> filter is_http (snd (System_send_request demo_lib (demo_sys demo_auth) ''GET''
       ''https://[host/a'' None)) = []"
    by simp
  from 1 2 3 4 show ?thesis by blast
qed

section \<open>The retry loop\<close>



lemma urlopen_single:
  "\<not> is_retry p r (req_method req) (w k req) \<Longrightarrow>
     urlopen w req p k r = (Inr (answer_response (w k req)), [Attempt k (w k req)])"
  by (cases r) (simp_all add: Let_def)





lemma lower_prefixes:
  "map ascii_lower ''https://'' = ''https://''" "map ascii_lower ''http://'' = ''http://''"
  by (simp_all add: ascii_lower_def)


lemma demo_session_send:
  "session_send w demo_session (users_search method headers) =
     urlopen w (users_search method headers)
       \<lparr>total = 3, backoff_factor = 1, status_forcelist = [500, 502, 503, 504]\<rparr> 0 3"
  by (simp add: session_send_def demo_session_def starts_with_def
                users_search_def ascii_lower_def)




lemma demo_session_send_404:
  "session_send wire_404 demo_session (users_search ''GET'' headers) =
     (Inr \<lparr>status_code = 404, response_text = ''Not Found''\<rparr>,
      [Attempt 0 (WireAnswer \<lparr>status_code = 404, response_text = ''Not Found''\<rparr> None)])"
proof -
  let ?p = "\<lparr>total = 3, backoff_factor = 1, status_forcelist = [500, 502, 503, 504]\<rparr>"
  have "\<not> is_retry ?p 3 (req_method (users_search ''GET'' headers))
            (wire_404 0 (users_search ''GET'' headers))"
    by (simp add: is_retry_def wire_404_def)
  from urlopen_single [of ?p 3 "users_search ''GET'' headers" wire_404 0, OF this] show ?thesis
    unfolding demo_session_send by (simp add: wire_404_def)
qed










section \<open>Results and errors of the dispatchers\<close>

text \<open>
  The outcome of the \<open>try\<close> block, by what the transport answered.
\<close>

lemma read_response_cases:
  "read_response lib (Inl r) = Inl r"
  "\<not> (400 \<le> status_code resp \<and> status_code resp < 600) \<Longrightarrow> response_text resp = [] \<Longrightarrow>
     read_response lib (Inr resp) = Inr (JDict [])"
  "\<not> (400 \<le> status_code resp \<and> status_code resp < 600) \<Longrightarrow> response_text resp \<noteq> [] \<Longrightarrow>
     read_response lib (Inr resp) = response_json lib resp"
  "400 \<le> status_code resp \<Longrightarrow> status_code resp < 600 \<Longrightarrow>
     read_response lib (Inr resp) = Inl (RequestException (http_error_msg lib resp) (Some resp))"
  by (auto simp: read_response_def raise_for_status_def)

text \<open>MDM and System keep the contract of the claim.\<close>

lemma MDM_send_request_contract:
  assumes "fst (MDM_get_headers lib self url) = Inr headers"
    and "sent = http_send lib None
            \<lparr>req_method = method, req_url = url, req_headers = headers,
             req_json = data, req_files = None, req_timeout = 90\<rparr>"
  shows "(sent = Inr resp \<and> \<not> (400 \<le> status_code resp \<and> status_code resp < 600)
            \<and> response_text resp = [] \<longrightarrow>
            fst (MDM_send_request lib self method url data) = Inr (JDict []))
       \<and> (sent = Inr resp \<and> \<not> (400 \<le> status_code resp \<and> status_code resp < 600)
            \<and> response_text resp \<noteq> [] \<and> response_json lib resp = Inr j \<longrightarrow>
            fst (MDM_send_request lib self method url data) = Inr j)
       \<and> (sent = Inr resp \<and> 400 \<le> status_code resp \<and> status_code resp < 600 \<longrightarrow>
            fst (MDM_send_request lib self method url data) =
              Inl (APIRequestError (''API request to '' @ url @ '' failed'')
                     (Some (status_code resp))))
       \<and> (sent = Inl (RequestException msg r) \<longrightarrow>
            fst (MDM_send_request lib self method url data) =
              Inl (APIRequestError (''API request to '' @ url @ '' failed'')
                     (response_status r)))"
  using assms
  by (auto simp: MDM_send_request_fst read_response_cases response_status_def)

lemma System_send_request_contract:
  assumes "fst (System_get_headers lib self url) = Inr headers"
    and "sent = http_send lib (Some (sys_session self))
            \<lparr>req_method = method, req_url = url, req_headers = headers,
             req_json = data, req_files = None, req_timeout = 90\<rparr>"
  shows "(sent = Inr resp \<and> \<not> (400 \<le> status_code resp \<and> status_code resp < 600)
            \<and> response_text resp = [] \<longrightarrow>
            fst (System_send_request lib self method url data) = Inr (JDict []))
       \<and> (sent = Inr resp \<and> \<not> (400 \<le> status_code resp \<and> status_code resp < 600)
            \<and> response_text resp \<noteq> [] \<and> response_json lib resp = Inr j \<longrightarrow>
            fst (System_send_request lib self method url data) = Inr j)
       \<and> (sent = Inr resp \<and> 400 \<le> status_code resp \<and> status_code resp < 600 \<longrightarrow>
            fst (System_send_request lib self method url data) =
              Inl (APIRequestError (''API request to '' @ url @ '' failed'')
                     (Some (status_code resp))))
       \<and> (sent = Inl (RequestException msg r) \<longrightarrow>
            fst (System_send_request lib self method url data) =
              Inl (APIRequestError (''API request to '' @ url @ '' failed'')
                     (response_status r)))"
  using assms
  by (auto simp: System_send_request_fst read_response_cases response_status_def)

text \<open>MAM passes the message of the exception and no status code.\<close>

lemma MAM_send_request_http_error:
  assumes "fst (MAM_get_headers lib self url) = Inr headers"
    and "http_send lib None
            \<lparr>req_method = method, req_url = url, req_headers = headers,
             req_json = json_data, req_files = files, req_timeout = 90\<rparr> = Inr resp"
    and "400 \<le> status_code resp" and "status_code resp < 600"
  shows "fst (MAM_send_request lib self method url json_data files) =
           Inl (APIRequestError (http_error_msg lib resp) None)"
  using assms by (simp add: MAM_send_request_fst read_response_cases)

lemma demo_send_missing:
  "read_response demo_lib (http_send demo_lib s
       \<lparr>req_method = m, req_url = ''https://host/api/missing'', req_headers = h,
        req_json = j, req_files = f, req_timeout = t\<rparr>) =
     Inl (RequestException ''HTTP Error'' (Some \<lparr>status_code = 404, response_text = ''Not Found''\<rparr>))"
  by (simp add: demo_lib_def demo_http_send_def py_urlparse_missing ends_with_def
                read_response_def raise_for_status_def)

text \<open>
  Claim C5 says that every dispatcher raises an \<open>APIRequestError\<close> that carries the
  HTTP status code whenever the code is available.  \<open>MDM\<close> and \<open>System\<close> pass
  \<open>status_code\<close>; \<open>MAM\<close> constructs the error from the message alone.  On a
  response with status 404, \<open>MAM._send_request\<close> raises an error without a status
  code, where \<open>MDM._send_request\<close> and \<open>System._send_request\<close> raise one with 404.
\<close>

theorem MAM_send_request_drops_status_code:
  "fst (MAM_send_request demo_lib (demo_mam demo_auth) ''GET'' ''https://host/api/missing''
          None None) = Inl (APIRequestError ''HTTP Error'' None)
   \<and> fst (MDM_send_request demo_lib (demo_mdm demo_auth) ''GET'' ''https://host/api/missing''
          None) = Inl (APIRequestError ''API request to https://host/api/missing failed'' (Some 404))
   \<and> fst (System_send_request demo_lib (demo_sys demo_auth) ''GET'' ''https://host/api/missing''
          None) = Inl (APIRequestError ''API request to https://host/api/missing failed'' (Some 404))"
proof -
  let ?url = "''https://host/api/missing''"
  have "urlparse demo_lib ?url \<noteq> Inl e" for e
    by (simp add: demo_lib_def py_urlparse_missing)
  then have "fst (get_cmsurl_header demo_lib demo_auth ?url) \<noteq> Inl e" for e
    using get_cmsurl_header_raises [of demo_lib demo_auth ?url e] by blast
  then obtain a where a: "fst (get_cmsurl_header demo_lib demo_auth ?url) = Inr a"
    by (cases "fst (get_cmsurl_header demo_lib demo_auth ?url)") auto
  have sel: "mdm_auth (demo_mdm demo_auth) = demo_auth" "mam_auth (demo_mam demo_auth) = demo_auth"
    "sys_auth (demo_sys demo_auth) = demo_auth"
    "getattr (mdm_aw_environment (demo_mdm demo_auth)) ''tenant_code'' = Inr (PStr ''tenant'')"
    by (simp_all add: demo_mdm_def demo_mam_def demo_sys_def demo_env_def getattr_def)
  show ?thesis
    by (simp add: MAM_send_request_fst MDM_send_request_fst System_send_request_fst
                  MAM_get_headers_fst MDM_get_headers_fst System_get_headers_fst
                  sel a demo_send_missing response_status_def)
qed

section \<open>Retry policy and timeout\<close>




section \<open>Where configuration errors surface\<close>

text \<open>
  Claim C7 says that every configuration error fails at construction, and in
  particular that constructing the authenticator with missing or invalid certificate
  credentials fails.  The constructor of \<open>WorkspaceOneAuth\<close> stores its arguments and
  checks nothing: with an empty path and an empty password it returns an object, and
  the failure appears at the first call of \<open>get_cmsurl_header\<close>, which returns
  \<open>None\<close>.
\<close>

theorem authenticator_constructed_without_credentials_counterexample:
  "WorkspaceOneAuth_init [] [] =
     Inr \<lparr>cert_path = [], cert_pw = [], cert_bytes = None, use_memory_cert = False\<rparr>
   \<and> fst (get_cmsurl_header demo_lib
            \<lparr>cert_path = [], cert_pw = [], cert_bytes = None, use_memory_cert = False\<rparr>
            ''https://host/a/b?x=1'') = Inr None"
  by (simp add: WorkspaceOneAuth_init_def get_cmsurl_header_def load_p12_cert_def demo_lib_def
                demo_open_rb_def load_failure_def)

text \<open>
  Claim C7, amended.  An empty base URL or tenant code fails at the construction of
  \<open>AWEnvironment\<close>.  The construction of \<open>WorkspaceOneAuth\<close> succeeds for every
  certificate path and password; certificate credentials that cannot be loaded
  surface at call time, when \<open>get_cmsurl_header\<close> returns \<open>None\<close>.
\<close>

theorem configuration_errors_by_component:
  "(api_url = [] \<or> tenant_code = [] \<longrightarrow>
      AWEnvironment_init api_url tenant_code parent_og =
        Inl (PyExc ValueError ''Both 'api_url' and 'tenant_code' are required.''))
   \<and> WorkspaceOneAuth_init p pw =
        Inr \<lparr>cert_path = p, cert_pw = pw, cert_bytes = None, use_memory_cert = False\<rparr>
   \<and> (WorkspaceOneAuth_init p pw = Inr self
        \<and> fst (load_p12_cert lib self p pw) = Inl e \<longrightarrow>
        fst (get_cmsurl_header lib self url) = Inr None)"
proof -
  have "fst (get_cmsurl_header lib self url) = Inr None"
    if c: "WorkspaceOneAuth_init p pw = Inr self"
      and l: "fst (load_p12_cert lib self p pw) = Inl e"
  proof -
    from c have cp: "cert_path self = p" "cert_pw self = pw"
      by (auto simp: WorkspaceOneAuth_init_def)
    obtain tr where L: "load_p12_cert lib self p pw = (Inl e, tr)"
      using l by (cases "load_p12_cert lib self p pw") simp
    from load_p12_cert_error_class [OF L] L cp show ?thesis
      by (simp add: get_cmsurl_header_def)
  qed
  then show ?thesis
    by (simp add: AWEnvironment_init_def WorkspaceOneAuth_init_def)
qed

theorem configuration_errors_by_component_witness:
  "AWEnvironment_init [] ''tenant'' None =
      Inl (PyExc ValueError ''Both 'api_url' and 'tenant_code' are required.'')
   \<and> WorkspaceOneAuth_init ''absent.p12'' ''secret'' = Inr missing_auth
   \<and> fst (get_cmsurl_header demo_lib missing_auth ''https://host/a/b?x=1'') = Inr None"
proof -
  have c: "WorkspaceOneAuth_init ''absent.p12'' ''secret'' = Inr missing_auth"
    by (simp add: WorkspaceOneAuth_init_def missing_auth_def)
  have l: "fst (load_p12_cert demo_lib missing_auth ''absent.p12'' ''secret'') =
             Inl (load_failure (PyExc OSError ''No such file or directory: absent.p12''))"
    by (simp add: load_p12_cert_def missing_auth_def demo_lib_def demo_open_rb_def)
  from configuration_errors_by_component [of "[]" "''tenant''" None "''absent.p12''" "''secret''"
         missing_auth demo_lib _ "''https://host/a/b?x=1''"] c l
  show ?thesis by simp
qed

end
